theory Spec2Isabelle
  imports Main
begin

unbundle bit_operations_syntax

section \<open>JavaScript strings and JSON values\<close>

text \<open>
  A JavaScript string is a sequence of UTF-16 code units; \<open>charCodeAt\<close> reads one of
  them as a number. Strings are therefore lists of natural numbers (each below 65536 in a
  real string). \<open>ascii\<close> writes an ASCII literal as such a list.
\<close>

type_synonym jsstring = "nat list"

definition ascii :: "string \<Rightarrow> jsstring" where
  "ascii s = map of_char s"

text \<open>
  A JSON number is an IEEE double. No arithmetic on doubles is modelled: a number is kept
  as the expression that produced it, either \<open>Number(text)\<close> of a scanned lexeme or the
  integer returned by a \<open>length\<close> property. Equality and order on numbers are those of the
  JSON library, which is a parameter below.
\<close>

datatype jsnumber = NumberOfText jsstring | NumberOfInt int

text \<open>
  A node is any JavaScript value the engine may be handed (\<open>Node = unknown\<close>): the
  JSON values and \<open>undefined\<close>, which is not JSON but is the value of an unset query
  argument and of the special result Nothing.
\<close>

datatype Node =
    JUndefined
  | JNull
  | JBool bool
  | JNumber jsnumber
  | JString jsstring
  | JArray "Node list"
  | JObject "(jsstring \<times> Node) list"

type_synonym NodeList = "Node list"

subsection \<open>The JSON library \<open>tool-json\<close>\<close>

text \<open>
  The package \<open>tool-json\<close> is an external dependency. Its type tests and child
  enumeration are structural on the datatype above; deep equality, ordering and the
  Unicode length are taken as parameters (record \<open>tool_json\<close>).
\<close>

fun isArray :: "Node \<Rightarrow> bool" where
  "isArray (JArray xs) = True"
| "isArray _ = False"

fun isObject :: "Node \<Rightarrow> bool" where
  "isObject (JObject ms) = True"
| "isObject _ = False"

fun isString :: "Node \<Rightarrow> bool" where
  "isString (JString s) = True"
| "isString _ = False"

text \<open>Modelled from the spec: \<open>getChild(n, k)\<close> of tool-json, the member \<open>k\<close> of an
  object, absent for every other node (section 4.3.1, selector \<open>Name(k)\<close>).\<close>

fun getChild :: "Node \<Rightarrow> jsstring \<Rightarrow> Node" where
  "getChild (JObject ms) k = (case map_of ms k of None \<Rightarrow> JUndefined | Some v \<Rightarrow> v)"
| "getChild _ k = JUndefined"

text \<open>Modelled from the spec: \<open>getChildren(n)\<close> of tool-json, array elements in index
  order, object members in enumeration order (section 4.3.1, selector \<open>Wildcard\<close>).\<close>

fun getChildren :: "Node \<Rightarrow> NodeList" where
  "getChildren (JArray xs) = xs"
| "getChildren (JObject ms) = map snd ms"
| "getChildren _ = []"

text \<open>Modelled from the spec: \<open>getDescendants(n)\<close> of tool-json, the proper descendants
  of a node in pre-order (section 4.3.1, descendant segment; section 8, descendant order).\<close>

fun getDescendants :: "Node \<Rightarrow> NodeList" where
  "getDescendants (JArray xs) = concat (map (\<lambda>x. x # getDescendants x) xs)"
| "getDescendants (JObject ms) = concat (map (\<lambda>m. snd m # getDescendants (snd m)) ms)"
| "getDescendants _ = []"

record tool_json =
  equalJson :: "Node \<Rightarrow> Node \<Rightarrow> bool"
  compareJson :: "Node \<Rightarrow> Node \<Rightarrow> int option"
  unicodeLength :: "jsstring \<Rightarrow> nat"

section \<open>The abstract syntax tree\<close>

datatype DeclaredType = Value | Logical | Nodes

type_synonym ValueType = Node
type_synonym LogicalType = bool
type_synonym NodesType = NodeList

text \<open>\<open>ExpressionType\<close> is an untagged union in the source; the tag is the declared
  type under which an argument was evaluated.\<close>

datatype ExpressionType =
    ValueArg ValueType
  | LogicalArg LogicalType
  | NodesArg NodesType

datatype ComparisonOperator =
    Equal
  | NotEqual
  | LessThan
  | LessThanOrEqual
  | GreaterThan
  | GreaterThanOrEqual

text \<open>Exceptions: the parser's \<open>QueryError\<close> (message and offset), the evaluator's
  \<open>TypeError\<close>, the \<open>SyntaxError\<close> of the \<open>RegExp\<close> constructor, and any other
  \<open>Error\<close> thrown by a function extension.\<close>

datatype exn =
    QueryError string nat
  | TypeError string
  | SyntaxError string
  | OtherError string

text \<open>
  A function extension is one of three interfaces, told apart by \<open>resultType\<close>, whose
  \<open>evaluate\<close> returns a value, a logical or a nodelist. \<open>evaluate\<close> receives the
  evaluated arguments and the context (of which it is given the query argument), and may
  throw.
\<close>

datatype FunctionExtension =
    ValueFunctionExtension (name: jsstring) (parameterTypes: "DeclaredType list")
      "ExpressionType list \<Rightarrow> Node \<Rightarrow> exn + ValueType"
  | LogicalFunctionExtension (name: jsstring) (parameterTypes: "DeclaredType list")
      "ExpressionType list \<Rightarrow> Node \<Rightarrow> exn + LogicalType"
  | NodesFunctionExtension (name: jsstring) (parameterTypes: "DeclaredType list")
      "ExpressionType list \<Rightarrow> Node \<Rightarrow> exn + NodesType"

fun resultType :: "FunctionExtension \<Rightarrow> DeclaredType" where
  "resultType (ValueFunctionExtension n ps ev) = Value"
| "resultType (LogicalFunctionExtension n ps ev) = Logical"
| "resultType (NodesFunctionExtension n ps ev) = Nodes"

datatype Segment =
    ChildSegment "Selector list"
  | DescendantSegment "Selector list"
and Selector =
    NameSelector jsstring
  | WildcardSelector
  | IndexSelector int
  | SliceSelector "int option" "int option" "int option"
  | FilterSelector Expression
and Expression =
    OrExpression "Expression list"
  | AndExpression "Expression list"
  | ComparisonExpression Expression ComparisonOperator Expression
  | NotExpression Expression
  | QueryExpression jsstring "Segment list"
  | LiteralExpression Node
  | FunctionExpression FunctionExtension "Expression list"

record Query =
  segments :: "Segment list"

definition createQuery :: "Segment list \<Rightarrow> Query" where
  "createQuery segs = \<lparr>segments = segs\<rparr>"

fun selectors :: "Segment \<Rightarrow> Selector list" where
  "selectors (ChildSegment sels) = sels"
| "selectors (DescendantSegment sels) = sels"

fun isSingularSelector :: "Selector \<Rightarrow> bool" where
  "isSingularSelector (NameSelector n) = True"
| "isSingularSelector (IndexSelector i) = True"
| "isSingularSelector _ = False"

fun isSingularSegment :: "Segment \<Rightarrow> bool" where
  "isSingularSegment (ChildSegment sels) =
     (length sels = 1 \<and> isSingularSelector (sels ! 0))"
| "isSingularSegment (DescendantSegment sels) = False"

definition isSingularQuery :: "Segment list \<Rightarrow> bool" where
  "isSingularQuery segs = list_all isSingularSegment segs"

fun getExpressionPrecedence :: "Expression \<Rightarrow> nat" where
  "getExpressionPrecedence (OrExpression ops) = 1"
| "getExpressionPrecedence (AndExpression ops) = 2"
| "getExpressionPrecedence (ComparisonExpression l op r) = 3"
| "getExpressionPrecedence (NotExpression e) = 4"
| "getExpressionPrecedence _ = 5"

section \<open>The query context\<close>

datatype QueryScope = ScopeExpression | ScopeArgument

record QueryContext =
  functionExtensions :: "jsstring \<Rightarrow> FunctionExtension option"
  queryArgument :: Node
  queryScope :: "QueryScope option"


section \<open>The evaluator\<close>

text \<open>
  Every evaluator function takes the context and returns it with its result: the context
  is a mutable object passed by reference, and \<open>queryArgument\<close> is assigned during
  evaluation. A thrown exception is the result \<open>Inl\<close>.
\<close>

type_synonym 'a eval = "(exn + 'a) \<times> QueryContext"

subsection \<open>Selectors that do not depend on the context\<close>

definition evaluateNameSelector :: "jsstring \<Rightarrow> Node \<Rightarrow> NodeList" where
  "evaluateNameSelector nm node =
     (let child = getChild node nm in if child \<noteq> JUndefined then [child] else [])"

definition evaluateWildcardSelector :: "Node \<Rightarrow> NodeList" where
  "evaluateWildcardSelector node = getChildren node"

text \<open>\<open>node[index]\<close> is \<open>undefined\<close> outside the array.\<close>

fun evaluateIndexSelector :: "int \<Rightarrow> Node \<Rightarrow> NodeList" where
  "evaluateIndexSelector i (JArray xs) =
     (let index = (if i < 0 then i + int (length xs) else i);
          child = (if 0 \<le> index \<and> index < int (length xs) then xs ! nat index
                   else JUndefined)
      in if child \<noteq> JUndefined then [child] else [])"
| "evaluateIndexSelector i node = []"

text \<open>The two \<open>for\<close> loops of \<open>evaluateSliceSelector\<close>. The source enters the first only
  with \<open>step > 0\<close> and the second only with \<open>step < 0\<close>; the sign is repeated in the loop
  condition here, where it bounds the recursion.\<close>

function sliceForward :: "Node list \<Rightarrow> int \<Rightarrow> int \<Rightarrow> int \<Rightarrow> NodeList" where
  "sliceForward xs i upper step =
     (if i < upper \<and> 0 < step
      then (if 0 \<le> i \<and> i < int (length xs) then xs ! nat i else JUndefined)
           # sliceForward xs (i + step) upper step
      else [])"
  by pat_completeness auto
termination
  by (relation "measure (\<lambda>(xs, i, upper, step). nat (upper - i))") auto

function sliceBackward :: "Node list \<Rightarrow> int \<Rightarrow> int \<Rightarrow> int \<Rightarrow> NodeList" where
  "sliceBackward xs i lower step =
     (if i > lower \<and> step < 0
      then (if 0 \<le> i \<and> i < int (length xs) then xs ! nat i else JUndefined)
           # sliceBackward xs (i + step) lower step
      else [])"
  by pat_completeness auto
termination
  by (relation "measure (\<lambda>(xs, i, lower, step). nat (i - lower))") auto

definition evaluateSliceSelector ::
  "int option \<Rightarrow> int option \<Rightarrow> int option \<Rightarrow> Node \<Rightarrow> NodeList" where
  "evaluateSliceSelector start0 end0 step0 node =
     (let xs = (case node of JArray ys \<Rightarrow> ys | _ \<Rightarrow> []);
          len = int (length xs);
          step = (if len \<noteq> 0 then (case step0 of None \<Rightarrow> 1 | Some s \<Rightarrow> s) else 0)
      in if step > 0 then
           (let start1 = (case start0 of None \<Rightarrow> 0 | Some s \<Rightarrow> s);
                end1 = (case end0 of None \<Rightarrow> len | Some e \<Rightarrow> e);
                start2 = (if start1 \<ge> 0 then start1 else len + start1);
                end2 = (if end1 \<ge> 0 then end1 else len + end1);
                lower = min (max start2 0) len;
                upper = min (max end2 0) len
            in sliceForward xs lower upper step)
         else if step < 0 then
           (let start1 = (case start0 of None \<Rightarrow> len - 1 | Some s \<Rightarrow> s);
                end1 = (case end0 of None \<Rightarrow> - len - 1 | Some e \<Rightarrow> e);
                start2 = (if start1 \<ge> 0 then start1 else len + start1);
                end2 = (if end1 \<ge> 0 then end1 else len + end1);
                upper = min (max start2 (- 1)) (len - 1);
                lower = min (max end2 (- 1)) (len - 1)
            in sliceBackward xs upper lower step)
         else [])"

definition existenceTest :: "NodeList \<Rightarrow> bool" where
  "existenceTest nodes = (length nodes \<noteq> 0)"

definition valueTypeList :: "ValueType \<Rightarrow> NodeList" where
  "valueTypeList v = (if v \<noteq> JUndefined then [v] else [])"

definition singularValue :: "NodesType \<Rightarrow> ValueType" where
  "singularValue nodes = (if length nodes = 1 then nodes ! 0 else JUndefined)"

definition evaluateLiteralExpression :: "Node \<Rightarrow> NodeList" where
  "evaluateLiteralExpression v = [v]"

text \<open>The part of \<open>evaluateComparisonExpression\<close> after both operands are evaluated
  (the \<open>if\<close> on the two lengths and the two \<open>switch\<close> statements).\<close>

definition compareNodeLists ::
  "tool_json \<Rightarrow> ComparisonOperator \<Rightarrow> NodeList \<Rightarrow> NodeList \<Rightarrow> bool" where
  "compareNodeLists L operator lhs rhs =
     (if length lhs = 0 \<or> length rhs = 0 then
        (case operator of
           Equal \<Rightarrow> length lhs = length rhs
         | LessThanOrEqual \<Rightarrow> length lhs = length rhs
         | GreaterThanOrEqual \<Rightarrow> length lhs = length rhs
         | NotEqual \<Rightarrow> length lhs \<noteq> length rhs
         | LessThan \<Rightarrow> False
         | GreaterThan \<Rightarrow> False)
      else if length lhs \<noteq> 1 \<or> length rhs \<noteq> 1 then False
      else
        (case operator of
           Equal \<Rightarrow> equalJson L (lhs ! 0) (rhs ! 0)
         | NotEqual \<Rightarrow> \<not> equalJson L (lhs ! 0) (rhs ! 0)
         | LessThan \<Rightarrow>
             (case compareJson L (lhs ! 0) (rhs ! 0) of None \<Rightarrow> 1 | Some c \<Rightarrow> c) < 0
         | LessThanOrEqual \<Rightarrow>
             (case compareJson L (lhs ! 0) (rhs ! 0) of None \<Rightarrow> 1 | Some c \<Rightarrow> c) \<le> 0
         | GreaterThan \<Rightarrow>
             (case compareJson L (lhs ! 0) (rhs ! 0) of None \<Rightarrow> - 1 | Some c \<Rightarrow> c) > 0
         | GreaterThanOrEqual \<Rightarrow>
             (case compareJson L (lhs ! 0) (rhs ! 0) of None \<Rightarrow> - 1 | Some c \<Rightarrow> c) \<ge> 0))"

subsection \<open>The recursive evaluator\<close>

text \<open>
  One function per function of the source, with the same case order. A \<open>for\<close> loop
  over a list is a recursive function on that list that carries the output built so far;
  the loops are named after what they iterate over. The functions are mutually recursive.
  \<open>evaluateSegments\<close> is the loop \<open>for (const segment of segments)\<close> shared by
  \<open>evaluateQuery\<close> and \<open>evaluateQueryExpression\<close>.
\<close>

function (sequential) evaluateSegments :: "tool_json \<Rightarrow> Segment list \<Rightarrow> NodeList \<Rightarrow> QueryContext \<Rightarrow> NodeList eval"
and evaluateSegment :: "tool_json \<Rightarrow> Segment \<Rightarrow> NodeList \<Rightarrow> QueryContext \<Rightarrow> NodeList eval"
and evaluateChildSegment :: "tool_json \<Rightarrow> Selector list \<Rightarrow> NodeList \<Rightarrow> QueryContext \<Rightarrow> NodeList eval"
and childSelectorsLoop :: "tool_json \<Rightarrow> Selector list \<Rightarrow> NodeList \<Rightarrow> NodeList \<Rightarrow> QueryContext \<Rightarrow> NodeList eval"
and childNodesLoop :: "tool_json \<Rightarrow> Selector \<Rightarrow> NodeList \<Rightarrow> NodeList \<Rightarrow> QueryContext \<Rightarrow> NodeList eval"
and evaluateDescendantSegment :: "tool_json \<Rightarrow> Selector list \<Rightarrow> NodeList \<Rightarrow> QueryContext \<Rightarrow> NodeList eval"
and descendantNodesLoop :: "tool_json \<Rightarrow> Selector list \<Rightarrow> NodeList \<Rightarrow> NodeList \<Rightarrow> QueryContext \<Rightarrow> NodeList eval"
and descendantsLoop :: "tool_json \<Rightarrow> Selector list \<Rightarrow> NodeList \<Rightarrow> NodeList \<Rightarrow> QueryContext \<Rightarrow> NodeList eval"
and nodeSelectorsLoop :: "tool_json \<Rightarrow> Selector list \<Rightarrow> Node \<Rightarrow> NodeList \<Rightarrow> QueryContext \<Rightarrow> NodeList eval"
and evaluateSelector :: "tool_json \<Rightarrow> Selector \<Rightarrow> Node \<Rightarrow> QueryContext \<Rightarrow> NodeList eval"
and evaluateFilterSelector :: "tool_json \<Rightarrow> Expression \<Rightarrow> Node \<Rightarrow> QueryContext \<Rightarrow> NodeList eval"
and filterChildrenLoop :: "tool_json \<Rightarrow> Expression \<Rightarrow> NodeList \<Rightarrow> NodeList \<Rightarrow> QueryContext \<Rightarrow> NodeList eval"
and evaluateExpression :: "tool_json \<Rightarrow> Expression \<Rightarrow> Node \<Rightarrow> QueryContext \<Rightarrow> bool eval"
and evaluateOrExpression :: "tool_json \<Rightarrow> Expression list \<Rightarrow> Node \<Rightarrow> QueryContext \<Rightarrow> bool eval"
and evaluateAndExpression :: "tool_json \<Rightarrow> Expression list \<Rightarrow> Node \<Rightarrow> QueryContext \<Rightarrow> bool eval"
and evaluateComparisonExpression :: "tool_json \<Rightarrow> Expression \<Rightarrow> ComparisonOperator \<Rightarrow> Expression \<Rightarrow> Node \<Rightarrow> QueryContext \<Rightarrow> bool eval"
and evaluateNotExpression :: "tool_json \<Rightarrow> Expression \<Rightarrow> Node \<Rightarrow> QueryContext \<Rightarrow> bool eval"
and evaluateQueryTestExpression :: "tool_json \<Rightarrow> jsstring \<Rightarrow> Segment list \<Rightarrow> Node \<Rightarrow> QueryContext \<Rightarrow> bool eval"
and evaluateFunctionTestExpression :: "tool_json \<Rightarrow> FunctionExtension \<Rightarrow> Expression list \<Rightarrow> Node \<Rightarrow> QueryContext \<Rightarrow> bool eval"
and evaluateComparableExpression :: "tool_json \<Rightarrow> Expression \<Rightarrow> Node \<Rightarrow> QueryContext \<Rightarrow> NodeList eval"
and evaluateQueryExpression :: "tool_json \<Rightarrow> jsstring \<Rightarrow> Segment list \<Rightarrow> Node \<Rightarrow> QueryContext \<Rightarrow> NodeList eval"
and evaluateFunctionExpression :: "tool_json \<Rightarrow> FunctionExtension \<Rightarrow> Expression list \<Rightarrow> Node \<Rightarrow> QueryContext \<Rightarrow> NodeList eval"
and evaluateFunctionArguments :: "tool_json \<Rightarrow> FunctionExtension \<Rightarrow> Expression list \<Rightarrow> Node \<Rightarrow> QueryContext \<Rightarrow> ExpressionType list eval"
and functionArgumentsLoop :: "tool_json \<Rightarrow> DeclaredType list \<Rightarrow> Expression list \<Rightarrow> Node \<Rightarrow> ExpressionType list \<Rightarrow> QueryContext \<Rightarrow> ExpressionType list eval"
and evaluateFunctionArgument :: "tool_json \<Rightarrow> DeclaredType \<Rightarrow> Expression \<Rightarrow> Node \<Rightarrow> QueryContext \<Rightarrow> ExpressionType eval"
and evaluateValueFunctionArgument :: "tool_json \<Rightarrow> Expression \<Rightarrow> Node \<Rightarrow> QueryContext \<Rightarrow> ValueType eval"
and evaluateLogicalFunctionArgument :: "tool_json \<Rightarrow> Expression \<Rightarrow> Node \<Rightarrow> QueryContext \<Rightarrow> LogicalType eval"
and evaluateNodesFunctionArgument :: "tool_json \<Rightarrow> Expression \<Rightarrow> Node \<Rightarrow> QueryContext \<Rightarrow> NodesType eval"
where
  "evaluateSegments L [] nodes ctx = (Inr nodes, ctx)"
| "evaluateSegments L (segment # rest) nodes ctx =
     (case evaluateSegment L segment nodes ctx of
        (Inl e, ctx1) \<Rightarrow> (Inl e, ctx1)
      | (Inr nodes1, ctx1) \<Rightarrow> evaluateSegments L rest nodes1 ctx1)"

| "evaluateSegment L (ChildSegment sels) nodes ctx = evaluateChildSegment L sels nodes ctx"
| "evaluateSegment L (DescendantSegment sels) nodes ctx =
     evaluateDescendantSegment L sels nodes ctx"

| "evaluateChildSegment L sels nodes ctx = childSelectorsLoop L sels nodes [] ctx"
| "childSelectorsLoop L [] nodes output ctx = (Inr output, ctx)"
| "childSelectorsLoop L (selector # rest) nodes output ctx =
     (case childNodesLoop L selector nodes output ctx of
        (Inl e, ctx1) \<Rightarrow> (Inl e, ctx1)
      | (Inr output1, ctx1) \<Rightarrow> childSelectorsLoop L rest nodes output1 ctx1)"
| "childNodesLoop L selector [] output ctx = (Inr output, ctx)"
| "childNodesLoop L selector (node # rest) output ctx =
     (case evaluateSelector L selector node ctx of
        (Inl e, ctx1) \<Rightarrow> (Inl e, ctx1)
      | (Inr found, ctx1) \<Rightarrow> childNodesLoop L selector rest (output @ found) ctx1)"

| "evaluateDescendantSegment L sels nodes ctx =
     (if length sels \<noteq> 0 then descendantNodesLoop L sels nodes [] ctx else (Inr [], ctx))"
| "descendantNodesLoop L sels [] output ctx = (Inr output, ctx)"
| "descendantNodesLoop L sels (node # rest) output ctx =
     (case nodeSelectorsLoop L sels node output ctx of
        (Inl e, ctx1) \<Rightarrow> (Inl e, ctx1)
      | (Inr output1, ctx1) \<Rightarrow>
          (case descendantsLoop L sels (getDescendants node) output1 ctx1 of
             (Inl e, ctx2) \<Rightarrow> (Inl e, ctx2)
           | (Inr output2, ctx2) \<Rightarrow> descendantNodesLoop L sels rest output2 ctx2))"
| "descendantsLoop L sels [] output ctx = (Inr output, ctx)"
| "descendantsLoop L sels (descendant # rest) output ctx =
     (case nodeSelectorsLoop L sels descendant output ctx of
        (Inl e, ctx1) \<Rightarrow> (Inl e, ctx1)
      | (Inr output1, ctx1) \<Rightarrow> descendantsLoop L sels rest output1 ctx1)"
| "nodeSelectorsLoop L [] node output ctx = (Inr output, ctx)"
| "nodeSelectorsLoop L (selector # rest) node output ctx =
     (case evaluateSelector L selector node ctx of
        (Inl e, ctx1) \<Rightarrow> (Inl e, ctx1)
      | (Inr found, ctx1) \<Rightarrow> nodeSelectorsLoop L rest node (output @ found) ctx1)"

| "evaluateSelector L (NameSelector nm) node ctx = (Inr (evaluateNameSelector nm node), ctx)"
| "evaluateSelector L WildcardSelector node ctx = (Inr (evaluateWildcardSelector node), ctx)"
| "evaluateSelector L (IndexSelector i) node ctx = (Inr (evaluateIndexSelector i node), ctx)"
| "evaluateSelector L (SliceSelector s e st) node ctx =
     (Inr (evaluateSliceSelector s e st node), ctx)"
| "evaluateSelector L (FilterSelector expression) node ctx =
     evaluateFilterSelector L expression node ctx"

| "evaluateFilterSelector L expression node ctx =
     filterChildrenLoop L expression (getChildren node) [] ctx"
| "filterChildrenLoop L expression [] output ctx = (Inr output, ctx)"
| "filterChildrenLoop L expression (child # rest) output ctx =
     (case evaluateExpression L expression child ctx of
        (Inl e, ctx1) \<Rightarrow> (Inl e, ctx1)
      | (Inr b, ctx1) \<Rightarrow>
          filterChildrenLoop L expression rest (if b then output @ [child] else output) ctx1)"

| "evaluateExpression L (OrExpression operands) node ctx =
     evaluateOrExpression L operands node ctx"
| "evaluateExpression L (AndExpression operands) node ctx =
     evaluateAndExpression L operands node ctx"
| "evaluateExpression L (ComparisonExpression lhs operator rhs) node ctx =
     evaluateComparisonExpression L lhs operator rhs node ctx"
| "evaluateExpression L (NotExpression operand) node ctx =
     evaluateNotExpression L operand node ctx"
| "evaluateExpression L (QueryExpression identifier segs) node ctx =
     evaluateQueryTestExpression L identifier segs node ctx"
| "evaluateExpression L (LiteralExpression v) node ctx =
     (Inl (TypeError ''Invalid literal expression''), ctx)"
| "evaluateExpression L (FunctionExpression func args) node ctx =
     evaluateFunctionTestExpression L func args node ctx"

| "evaluateOrExpression L [] node ctx = (Inr False, ctx)"
| "evaluateOrExpression L (operand # rest) node ctx =
     (case evaluateExpression L operand node ctx of
        (Inl e, ctx1) \<Rightarrow> (Inl e, ctx1)
      | (Inr b, ctx1) \<Rightarrow> if b then (Inr True, ctx1) else evaluateOrExpression L rest node ctx1)"
| "evaluateAndExpression L [] node ctx = (Inr True, ctx)"
| "evaluateAndExpression L (operand # rest) node ctx =
     (case evaluateExpression L operand node ctx of
        (Inl e, ctx1) \<Rightarrow> (Inl e, ctx1)
      | (Inr b, ctx1) \<Rightarrow>
          if \<not> b then (Inr False, ctx1) else evaluateAndExpression L rest node ctx1)"

| "evaluateComparisonExpression L lhsE operator rhsE node ctx =
     (case evaluateComparableExpression L lhsE node ctx of
        (Inl e, ctx1) \<Rightarrow> (Inl e, ctx1)
      | (Inr lhs, ctx1) \<Rightarrow>
          (case evaluateComparableExpression L rhsE node ctx1 of
             (Inl e, ctx2) \<Rightarrow> (Inl e, ctx2)
           | (Inr rhs, ctx2) \<Rightarrow> (Inr (compareNodeLists L operator lhs rhs), ctx2)))"

| "evaluateNotExpression L operand node ctx =
     (case evaluateExpression L operand node ctx of
        (Inl e, ctx1) \<Rightarrow> (Inl e, ctx1)
      | (Inr b, ctx1) \<Rightarrow> (Inr (\<not> b), ctx1))"

| "evaluateQueryTestExpression L identifier segs node ctx =
     (case evaluateQueryExpression L identifier segs node ctx of
        (Inl e, ctx1) \<Rightarrow> (Inl e, ctx1)
      | (Inr nodes, ctx1) \<Rightarrow> (Inr (existenceTest nodes), ctx1))"

| "evaluateFunctionTestExpression L func args node ctx =
     (case evaluateFunctionArguments L func args node ctx of
        (Inl e, ctx1) \<Rightarrow> (Inl e, ctx1)
      | (Inr vals, ctx1) \<Rightarrow>
          (case func of
             ValueFunctionExtension n ps ev \<Rightarrow>
               (Inl (TypeError ''ValueType function not supported in test expression''), ctx1)
           | LogicalFunctionExtension n ps ev \<Rightarrow> (ev vals (queryArgument ctx1), ctx1)
           | NodesFunctionExtension n ps ev \<Rightarrow>
               (map_sum id existenceTest (ev vals (queryArgument ctx1)), ctx1)))"

| "evaluateComparableExpression L (LiteralExpression v) node ctx =
     (Inr (evaluateLiteralExpression v), ctx)"
| "evaluateComparableExpression L (QueryExpression identifier segs) node ctx =
     evaluateQueryExpression L identifier segs node ctx"
| "evaluateComparableExpression L (FunctionExpression func args) node ctx =
     evaluateFunctionExpression L func args node ctx"
| "evaluateComparableExpression L (OrExpression ops) node ctx =
     (Inl (TypeError ''Invalid ComparableExpressionKind''), ctx)"
| "evaluateComparableExpression L (AndExpression ops) node ctx =
     (Inl (TypeError ''Invalid ComparableExpressionKind''), ctx)"
| "evaluateComparableExpression L (ComparisonExpression l operator r) node ctx =
     (Inl (TypeError ''Invalid ComparableExpressionKind''), ctx)"
| "evaluateComparableExpression L (NotExpression operand) node ctx =
     (Inl (TypeError ''Invalid ComparableExpressionKind''), ctx)"

| "evaluateQueryExpression L identifier segs node ctx =
     (case (if identifier = ascii ''@'' then Inr node
            else if identifier = ascii ''$'' then Inr (queryArgument ctx)
            else Inl (TypeError ''Unsupported node identifier'')) of
        Inl e \<Rightarrow> (Inl e, ctx)
      | Inr root \<Rightarrow>
          (case evaluateSegments L segs [root] (ctx\<lparr>queryArgument := root\<rparr>) of
             (r, ctx1) \<Rightarrow> (r, ctx1\<lparr>queryArgument := queryArgument ctx\<rparr>)))"

| "evaluateFunctionExpression L func args node ctx =
     (case evaluateFunctionArguments L func args node ctx of
        (Inl e, ctx1) \<Rightarrow> (Inl e, ctx1)
      | (Inr vals, ctx1) \<Rightarrow>
          (case func of
             ValueFunctionExtension n ps ev \<Rightarrow>
               (map_sum id valueTypeList (ev vals (queryArgument ctx1)), ctx1)
           | LogicalFunctionExtension n ps ev \<Rightarrow>
               (Inl (TypeError
                  ''LogicalType function not supported in comparison expression''), ctx1)
           | NodesFunctionExtension n ps ev \<Rightarrow>
               (Inl (TypeError
                  ''NodesType function not supported in comparison expression''), ctx1)))"

| "evaluateFunctionArguments L func args node ctx =
     (if length args \<noteq> length (parameterTypes func)
      then (Inl (TypeError ''Expected a different number of arguments''), ctx)
      else functionArgumentsLoop L (parameterTypes func) args node [] ctx)"
| "functionArgumentsLoop L (argType # types) (arg # rest) node vals ctx =
     (case evaluateFunctionArgument L argType arg node ctx of
        (Inl e, ctx1) \<Rightarrow> (Inl e, ctx1)
      | (Inr v, ctx1) \<Rightarrow> functionArgumentsLoop L types rest node (vals @ [v]) ctx1)"
| "functionArgumentsLoop L [] rest node vals ctx = (Inr vals, ctx)"
| "functionArgumentsLoop L types [] node vals ctx = (Inr vals, ctx)"

| "evaluateFunctionArgument L Value expression node ctx =
     (case evaluateValueFunctionArgument L expression node ctx of
        (r, ctx1) \<Rightarrow> (map_sum id ValueArg r, ctx1))"
| "evaluateFunctionArgument L Logical expression node ctx =
     (case evaluateLogicalFunctionArgument L expression node ctx of
        (r, ctx1) \<Rightarrow> (map_sum id LogicalArg r, ctx1))"
| "evaluateFunctionArgument L Nodes expression node ctx =
     (case evaluateNodesFunctionArgument L expression node ctx of
        (r, ctx1) \<Rightarrow> (map_sum id NodesArg r, ctx1))"

| "evaluateValueFunctionArgument L (FunctionExpression func args) node ctx =
     (case func of
        ValueFunctionExtension n ps ev \<Rightarrow>
          (case evaluateFunctionArguments L func args node ctx of
             (Inl e, ctx1) \<Rightarrow> (Inl e, ctx1)
           | (Inr vals, ctx1) \<Rightarrow> (ev vals (queryArgument ctx1), ctx1))
      | LogicalFunctionExtension n ps ev \<Rightarrow>
          (Inl (TypeError
             ''LogicalType function not supported in ValueType argument position''), ctx)
      | NodesFunctionExtension n ps ev \<Rightarrow>
          (Inl (TypeError
             ''NodesType function not supported in ValueType argument position''), ctx))"
| "evaluateValueFunctionArgument L (LiteralExpression v) node ctx = (Inr v, ctx)"
| "evaluateValueFunctionArgument L (QueryExpression identifier segs) node ctx =
     (case evaluateQueryExpression L identifier segs node ctx of
        (r, ctx1) \<Rightarrow> (map_sum id singularValue r, ctx1))"
| "evaluateValueFunctionArgument L expression node ctx =
     (Inl (TypeError ''ValueType function argument must be a ValueType function expression, a literal expression, or a singular query expression''), ctx)"

| "evaluateLogicalFunctionArgument L (FunctionExpression func args) node ctx =
     (case func of
        ValueFunctionExtension n ps ev \<Rightarrow>
          (Inl (TypeError
             ''ValueType function not supported in LogicalType argument position''), ctx)
      | LogicalFunctionExtension n ps ev \<Rightarrow>
          (case evaluateFunctionArguments L func args node ctx of
             (Inl e, ctx1) \<Rightarrow> (Inl e, ctx1)
           | (Inr vals, ctx1) \<Rightarrow> (ev vals (queryArgument ctx1), ctx1))
      | NodesFunctionExtension n ps ev \<Rightarrow>
          (case evaluateFunctionArguments L func args node ctx of
             (Inl e, ctx1) \<Rightarrow> (Inl e, ctx1)
           | (Inr vals, ctx1) \<Rightarrow>
               (map_sum id existenceTest (ev vals (queryArgument ctx1)), ctx1)))"
| "evaluateLogicalFunctionArgument L expression node ctx =
     evaluateExpression L expression node ctx"

| "evaluateNodesFunctionArgument L (FunctionExpression func args) node ctx =
     (case func of
        ValueFunctionExtension n ps ev \<Rightarrow>
          (Inl (TypeError
             ''ValueType function not supported in NodesType argument position''), ctx)
      | LogicalFunctionExtension n ps ev \<Rightarrow>
          (Inl (TypeError
             ''LogicalType function not supported in NodesType argument position''), ctx)
      | NodesFunctionExtension n ps ev \<Rightarrow>
          (case evaluateFunctionArguments L func args node ctx of
             (Inl e, ctx1) \<Rightarrow> (Inl e, ctx1)
           | (Inr vals, ctx1) \<Rightarrow> (ev vals (queryArgument ctx1), ctx1)))"
| "evaluateNodesFunctionArgument L (QueryExpression identifier segs) node ctx =
     evaluateQueryExpression L identifier segs node ctx"
| "evaluateNodesFunctionArgument L expression node ctx =
     (Inl (TypeError ''NodesType function argument must be a NodesType function expression or a query expression''), ctx)"
  by pat_completeness auto

text \<open>Termination: the syntax tree shrinks, or stays the same while the call moves to
  a helper of lower rank, or a loop over nodes moves to the rest of its list.\<close>

termination
  by (relation "measures [(case_sum (case_sum (case_sum (case_sum (\<lambda>(L, segs, nodes,
       ctx). 4 * (size_list size segs) + 0) (case_sum (\<lambda>(L, seg, nodes, ctx). 4 *
       (size seg) + 0) (\<lambda>(L, sels, nodes, ctx). 4 * (size_list size sels) + 1)))
       (case_sum (case_sum (\<lambda>(L, sels, nodes, out, ctx). 4 * (size_list size sels) +
       0) (\<lambda>(L, sel, nodes, out, ctx). 4 * (size sel) + 1)) (case_sum (\<lambda>(L,
       sels, nodes, ctx). 4 * (size_list size sels) + 3) (\<lambda>(L, sels, nodes, out,
       ctx). 4 * (size_list size sels) + 2)))) (case_sum (case_sum (\<lambda>(L, sels,
       nodes, out, ctx). 4 * (size_list size sels) + 1) (case_sum (\<lambda>(L, sels, node,
       out, ctx). 4 * (size_list size sels) + 0) (\<lambda>(L, sel, node, ctx). 4 * (size
       sel) + 0))) (case_sum (case_sum (\<lambda>(L, e, node, ctx). 4 * (size e) + 2)
       (\<lambda>(L, e, nodes, out, ctx). 4 * (size e) + 1)) (case_sum (\<lambda>(L, e,
       node, ctx). 4 * (size e) + 0) (\<lambda>(L, es, node, ctx). 4 * (size_list size es) +
       0))))) (case_sum (case_sum (case_sum (\<lambda>(L, es, node, ctx). 4 * (size_list
       size es) + 0) (case_sum (\<lambda>(L, l, operator, r, node, ctx). 4 * (size l + size
       r) + 1) (\<lambda>(L, e, node, ctx). 4 * (size e) + 1))) (case_sum (case_sum
       (\<lambda>(L, i, segs, node, ctx). 4 * (size_list size segs) + 2) (\<lambda>(L, f,
       es, node, ctx). 4 * (size_list size es) + 2)) (case_sum (\<lambda>(L, e, node, ctx).
       4 * (size e) + 0) (\<lambda>(L, i, segs, node, ctx). 4 * (size_list size segs) +
       1)))) (case_sum (case_sum (\<lambda>(L, f, es, node, ctx). 4 * (size_list size es) +
       2) (case_sum (\<lambda>(L, f, es, node, ctx). 4 * (size_list size es) + 1)
       (\<lambda>(L, ts, es, node, vals, ctx). 4 * (size_list size es) + 0))) (case_sum
       (case_sum (\<lambda>(L, t, e, node, ctx). 4 * (size e) + 2) (\<lambda>(L, e, node,
       ctx). 4 * (size e) + 1)) (case_sum (\<lambda>(L, e, node, ctx). 4 * (size e) + 1)
       (\<lambda>(L, e, node, ctx). 4 * (size e) + 1)))))),
      (case_sum (case_sum (case_sum (case_sum (\<lambda>(L, segs, nodes, ctx). 0) (case_sum
       (\<lambda>(L, seg, nodes, ctx). 0) (\<lambda>(L, sels, nodes, ctx). 0))) (case_sum
       (case_sum (\<lambda>(L, sels, nodes, out, ctx). 0) (\<lambda>(L, sel, nodes, out,
       ctx). length nodes)) (case_sum (\<lambda>(L, sels, nodes, ctx). 0) (\<lambda>(L,
       sels, nodes, out, ctx). length nodes)))) (case_sum (case_sum (\<lambda>(L, sels,
       nodes, out, ctx). length nodes) (case_sum (\<lambda>(L, sels, node, out, ctx). 0)
       (\<lambda>(L, sel, node, ctx). 0))) (case_sum (case_sum (\<lambda>(L, e, node, ctx).
       0) (\<lambda>(L, e, nodes, out, ctx). length nodes)) (case_sum (\<lambda>(L, e, node,
       ctx). 0) (\<lambda>(L, es, node, ctx). 0))))) (case_sum (case_sum (case_sum
       (\<lambda>(L, es, node, ctx). 0) (case_sum (\<lambda>(L, l, operator, r, node, ctx).
       0) (\<lambda>(L, e, node, ctx). 0))) (case_sum (case_sum (\<lambda>(L, i, segs, node,
       ctx). 0) (\<lambda>(L, f, es, node, ctx). 0)) (case_sum (\<lambda>(L, e, node, ctx).
       0) (\<lambda>(L, i, segs, node, ctx). 0)))) (case_sum (case_sum (\<lambda>(L, f, es,
       node, ctx). 0) (case_sum (\<lambda>(L, f, es, node, ctx). 0) (\<lambda>(L, ts, es,
       node, vals, ctx). 0))) (case_sum (case_sum (\<lambda>(L, t, e, node, ctx). 0)
       (\<lambda>(L, e, node, ctx). 0)) (case_sum (\<lambda>(L, e, node, ctx). 0)
       (\<lambda>(L, e, node, ctx). 0))))))]") auto

section \<open>The parser\<close>

subsection \<open>Input buffer and character classes\<close>

record InputBuffer =
  input :: jsstring
  offset :: nat
  limit :: nat

definition stringBuffer :: "jsstring \<Rightarrow> InputBuffer" where
  "stringBuffer s = \<lparr>input = s, offset = 0, limit = length s\<rparr>"

text \<open>\<open>s.charCodeAt(i)\<close> is \<open>NaN\<close> outside the string; the parser only tests its result
  for equality with a character and for membership in a character class, which \<open>NaN\<close> and
  \<open>-1\<close> fail alike.\<close>

definition charCodeAt :: "jsstring \<Rightarrow> nat \<Rightarrow> int" where
  "charCodeAt s i = (if i < length s then int (s ! i) else - 1)"

text \<open>The recurring expression
  \<open>buf.offset < buf.limit ? buf.input.charCodeAt(buf.offset) : -1\<close>.\<close>

definition peek :: "InputBuffer \<Rightarrow> int" where
  "peek buf = (if offset buf < limit buf then charCodeAt (input buf) (offset buf) else - 1)"

text \<open>\<open>buf.offset += k\<close>.\<close>

definition advance :: "nat \<Rightarrow> InputBuffer \<Rightarrow> InputBuffer" where
  "advance k buf = buf\<lparr>offset := offset buf + k\<rparr>"

definition slice :: "jsstring \<Rightarrow> nat \<Rightarrow> nat \<Rightarrow> jsstring" where
  "slice s start stop = take (stop - start) (drop start s)"

definition isUppercase :: "int \<Rightarrow> bool" where
  "isUppercase c = (c \<ge> 0x41 \<and> c \<le> 0x5a)"

definition isLowercase :: "int \<Rightarrow> bool" where
  "isLowercase c = (c \<ge> 0x61 \<and> c \<le> 0x7a)"

definition isAlpha :: "int \<Rightarrow> bool" where
  "isAlpha c = (isUppercase c \<or> isLowercase c)"

definition isDigit :: "int \<Rightarrow> bool" where
  "isDigit c = (c \<ge> 0x30 \<and> c \<le> 0x39)"

definition isNameFirstChar :: "int \<Rightarrow> bool" where
  "isNameFirstChar c = (isAlpha c \<or> c = 0x5f)"

definition isNameChar :: "int \<Rightarrow> bool" where
  "isNameChar c = (isNameFirstChar c \<or> isDigit c)"

definition isIdentifierChar :: "int \<Rightarrow> bool" where
  "isIdentifierChar c = (isLowercase c \<or> c = 0x5f \<or> isDigit c)"

definition isSpaceChar :: "int \<Rightarrow> bool" where
  "isSpaceChar c = (c = 0x20 \<or> c = 0x09 \<or> c = 0x0a \<or> c = 0x0d)"

definition isUnescapedStringChar :: "int \<Rightarrow> bool" where
  "isUnescapedStringChar c =
     ((c \<ge> 0x20 \<and> c \<le> 0x21) \<or> (c \<ge> 0x23 \<and> c \<le> 0x26) \<or> (c \<ge> 0x28 \<and> c \<le> 0x5b) \<or>
      (c \<ge> 0x5d \<and> c \<le> 0xd7ff) \<or> (c \<ge> 0xe000 \<and> c \<le> 0x10ffff))"

subsection \<open>Scanners\<close>

text \<open>The loop \<open>while (buf.offset < buf.limit && p(buf.input.charCodeAt(buf.offset)))
  buf.offset += 1\<close>, which the source writes out for blank space, names and digits.\<close>

function scanWhile :: "(int \<Rightarrow> bool) \<Rightarrow> InputBuffer \<Rightarrow> InputBuffer" where
  "scanWhile p buf =
     (if offset buf < limit buf \<and> p (charCodeAt (input buf) (offset buf))
      then scanWhile p (advance 1 buf) else buf)"
  by pat_completeness auto
termination
  by (relation "measure (\<lambda>(p, buf). limit buf - offset buf)") (auto simp: advance_def)

declare scanWhile.simps [simp del]

definition parseBlankSpace :: "InputBuffer \<Rightarrow> InputBuffer" where
  "parseBlankSpace buf = scanWhile isSpaceChar buf"

text \<open>Results of the scanners: the exception thrown, or the value with the buffer as the
  scanner left it.\<close>

type_synonym 'a scan = "exn + 'a \<times> InputBuffer"

definition parseFunctionName :: "InputBuffer \<Rightarrow> jsstring scan" where
  "parseFunctionName buf =
     (let start = offset buf in
      if offset buf \<ge> limit buf \<or> \<not> isLowercase (charCodeAt (input buf) (offset buf))
      then Inl (QueryError ''Expected identifier'' (offset buf))
      else let buf1 = scanWhile isIdentifierChar (advance 1 buf)
           in Inr (slice (input buf) start (offset buf1), buf1))"

definition parseShorthandName :: "InputBuffer \<Rightarrow> jsstring scan" where
  "parseShorthandName buf =
     (let start = offset buf in
      if offset buf \<ge> limit buf \<or> \<not> isNameFirstChar (charCodeAt (input buf) (offset buf))
      then Inl (QueryError ''Expected name'' (offset buf))
      else let buf1 = scanWhile isNameChar (advance 1 buf)
           in Inr (slice (input buf) start (offset buf1), buf1))"

text \<open>The digit loop of \<open>parseInt\<close>. The source accumulates a double; the accumulation is
  exact up to \<open>2^53\<close> and is modelled on the integers.\<close>

function parseIntDigits :: "int \<Rightarrow> InputBuffer \<Rightarrow> int \<times> InputBuffer" where
  "parseIntDigits v buf =
     (if offset buf < limit buf \<and> isDigit (charCodeAt (input buf) (offset buf))
      then parseIntDigits (v * 10 + (charCodeAt (input buf) (offset buf) - 0x30)) (advance 1 buf)
      else (v, buf))"
  by pat_completeness auto
termination
  by (relation "measure (\<lambda>(v, buf). limit buf - offset buf)") (auto simp: advance_def)

declare parseIntDigits.simps [simp del]

definition parseInt :: "InputBuffer \<Rightarrow> int scan" where
  "parseInt buf =
     (let c = peek buf in
      if c = 0x30 then Inr (0, advance 1 buf)
      else
        let sign = (if c = 0x2d then - 1 else 1);
            buf1 = (if c = 0x2d then advance 1 buf else buf);
            c1 = (if c = 0x2d then peek buf1 else c)
        in if c1 < 0x31 \<or> c1 > 0x39 then Inl (QueryError ''Expected digit'' (offset buf1))
           else case parseIntDigits (c1 - 0x30) (advance 1 buf1) of
                  (v, buf2) \<Rightarrow> Inr (v * sign, buf2))"

text \<open>\<open>parseNumber\<close> only delimits the lexeme; its value is \<open>Number(lexeme)\<close>. The
  optional fraction and exponent are the two \<open>if\<close> blocks of the source.\<close>

definition parseFraction :: "InputBuffer \<Rightarrow> exn + InputBuffer" where
  "parseFraction buf =
     (if offset buf < limit buf \<and> charCodeAt (input buf) (offset buf) = 0x2e then
        (let buf1 = advance 1 buf in
         if offset buf1 \<ge> limit buf1 \<or> \<not> isDigit (charCodeAt (input buf1) (offset buf1))
         then Inl (QueryError ''Expected fractional part'' (offset buf1))
         else Inr (scanWhile isDigit (advance 1 buf1)))
      else Inr buf)"

definition parseExponent :: "InputBuffer \<Rightarrow> exn + InputBuffer" where
  "parseExponent buf =
     (if offset buf < limit buf
         \<and> (charCodeAt (input buf) (offset buf) = 0x45
              \<or> charCodeAt (input buf) (offset buf) = 0x65)
      then
        (let buf1 = advance 1 buf;
             buf2 = (if charCodeAt (input buf1) (offset buf1) = 0x2b then advance 1 buf1
                     else if charCodeAt (input buf1) (offset buf1) = 0x2d then advance 1 buf1
                     else buf1)
         in if offset buf2 \<ge> limit buf2 \<or> \<not> isDigit (charCodeAt (input buf2) (offset buf2))
            then Inl (QueryError ''Expected exponent part'' (offset buf2))
            else Inr (scanWhile isDigit (advance 1 buf2)))
      else Inr buf)"

definition parseNumber :: "InputBuffer \<Rightarrow> jsnumber scan" where
  "parseNumber buf =
     (let start = offset buf;
          c = peek buf;
          buf1 = (if c = 0x2d then advance 1 buf else buf);
          c1 = (if c = 0x2d then peek buf1 else c)
      in if c1 = 0x30 then
           (let buf2 = advance 1 buf1
            in Inr (NumberOfText (slice (input buf) start (offset buf2)), buf2))
         else if c1 < 0x31 \<or> c1 > 0x39 then Inl (QueryError ''Expected digit'' (offset buf1))
         else
           (case parseFraction (scanWhile isDigit (advance 1 buf1)) of
              Inl e \<Rightarrow> Inl e
            | Inr buf2 \<Rightarrow>
                (case parseExponent buf2 of
                   Inl e \<Rightarrow> Inl e
                 | Inr buf3 \<Rightarrow>
                     Inr (NumberOfText (slice (input buf) start (offset buf3)), buf3))))"

definition parseHexChar :: "InputBuffer \<Rightarrow> int scan" where
  "parseHexChar buf =
     (let c = peek buf in
      if c \<ge> 0x30 \<and> c \<le> 0x39 then Inr (c - 0x30, advance 1 buf)
      else if c \<ge> 0x41 \<and> c \<le> 0x46 then Inr (c - 0x37, advance 1 buf)
      else if c \<ge> 0x61 \<and> c \<le> 0x66 then Inr (c - 0x57, advance 1 buf)
      else Inl (QueryError ''Expected hex digit'' (offset buf)))"

definition parseHexCodePoint :: "InputBuffer \<Rightarrow> int scan" where
  "parseHexCodePoint buf =
     (case parseHexChar buf of Inl e \<Rightarrow> Inl e | Inr (c0, buf0) \<Rightarrow>
      case parseHexChar buf0 of Inl e \<Rightarrow> Inl e | Inr (c1, buf1) \<Rightarrow>
      case parseHexChar buf1 of Inl e \<Rightarrow> Inl e | Inr (c2, buf2) \<Rightarrow>
      case parseHexChar buf2 of Inl e \<Rightarrow> Inl e | Inr (c3, buf3) \<Rightarrow>
        Inr (push_bit 12 c0 OR push_bit 8 c1 OR push_bit 4 c2 OR c3, buf3))"

text \<open>The \<open>while\<close> loop of \<open>parseStringLiteral\<close>; every \<open>continue\<close> is a recursive
  call. \<open>String.fromCharCode(c)\<close> appends the code unit \<open>c\<close>.\<close>

function parseStringLoop :: "int \<Rightarrow> jsstring \<Rightarrow> InputBuffer \<Rightarrow> jsstring scan" where
  "parseStringLoop quote result buf =
     (if offset buf < limit buf then
        (let c = charCodeAt (input buf) (offset buf) in
         if c = quote then Inr (result, advance 1 buf)
         else if isUnescapedStringChar c \<or> (quote = 0x22 \<and> c = 0x27)
                 \<or> (quote = 0x27 \<and> c = 0x22)
         then parseStringLoop quote (result @ [nat c]) (advance 1 buf)
         else if c = 0x5c then
           (let buf1 = advance 1 buf;
                c1 = peek buf1
            in if (quote = 0x22 \<and> c1 = 0x22) \<or> (quote = 0x27 \<and> c1 = 0x27)
               then parseStringLoop quote (result @ [nat c1]) (advance 1 buf1)
               else if c1 = 0x62 then parseStringLoop quote (result @ [0x08]) (advance 1 buf1)
               else if c1 = 0x66 then parseStringLoop quote (result @ [0x0c]) (advance 1 buf1)
               else if c1 = 0x6e then parseStringLoop quote (result @ [0x0a]) (advance 1 buf1)
               else if c1 = 0x72 then parseStringLoop quote (result @ [0x0d]) (advance 1 buf1)
               else if c1 = 0x74 then parseStringLoop quote (result @ [0x09]) (advance 1 buf1)
               else if c1 = 0x2f then parseStringLoop quote (result @ [0x2f]) (advance 1 buf1)
               else if c1 = 0x5c then parseStringLoop quote (result @ [0x5c]) (advance 1 buf1)
               else if c1 = 0x75 then
                 (case parseHexCodePoint (advance 1 buf1) of
                    Inl e \<Rightarrow> Inl e
                  | Inr (c0, buf2) \<Rightarrow>
                      if c0 < 0xd800 \<or> c0 > 0xdfff
                      then parseStringLoop quote (result @ [nat c0]) (advance 4 buf2)
                      else if c0 \<ge> 0xd800 \<and> c0 \<le> 0xdbff then
                        (let buf3 = advance 4 buf2 in
                         if offset buf3 + 2 \<ge> limit buf3
                            \<or> charCodeAt (input buf3) (offset buf3) \<noteq> 0x5c
                            \<or> charCodeAt (input buf3) (offset buf3 + 1) \<noteq> 0x75
                         then Inl (QueryError ''Expected low surrogate'' (offset buf3))
                         else
                           (case parseHexCodePoint (advance 2 buf3) of
                              Inl e \<Rightarrow> Inl e
                            | Inr (c1', buf4) \<Rightarrow>
                                if c1' < 0xdc00 \<or> c1' > 0xdfff
                                then Inl (QueryError ''Invalid low surrogate'' (offset buf4))
                                else parseStringLoop quote (result @ [nat c0, nat c1'])
                                       (advance 4 buf4)))
                      else Inl (QueryError ''Unexpected low surrogate'' (offset buf2)))
               else Inl (QueryError ''Invalid escape sequence'' (offset buf1)))
         else Inl (QueryError ''Invalid string literal character'' (offset buf)))
      else Inr (result, buf))"
  by pat_completeness auto
termination
proof -
  have hexChar: "buf' = advance 1 buf \<and> offset buf < limit buf"
    if "parseHexChar buf = Inr (c, buf')" for buf c buf'
    using that by (auto simp: parseHexChar_def peek_def Let_def split: if_splits)
  have hexCodePoint: "buf' = advance 4 buf \<and> offset buf < limit buf"
    if "parseHexCodePoint buf = Inr (c, buf')" for buf c buf'
    using that
    by (auto simp: parseHexCodePoint_def advance_def split: sum.splits dest!: hexChar)
  show ?thesis
    by (relation "measure (\<lambda>(quote, result, buf). limit buf - offset buf)")
       (auto simp: advance_def dest!: hexCodePoint)
qed

declare parseStringLoop.simps [simp del]

definition parseStringLiteral :: "InputBuffer \<Rightarrow> jsstring scan" where
  "parseStringLiteral buf =
     (let c = peek buf in
      if c = 0x22 then parseStringLoop 0x22 [] (advance 1 buf)
      else if c = 0x27 then parseStringLoop 0x27 [] (advance 1 buf)
      else Inl (QueryError ''Expected string literal'' (offset buf)))"

definition parseComparisonOperator :: "InputBuffer \<Rightarrow> ComparisonOperator option scan" where
  "parseComparisonOperator buf =
     (let c = peek buf;
          buf1 = advance 1 buf
      in if c = 0x3d then
           (if offset buf1 \<ge> limit buf1 \<or> charCodeAt (input buf1) (offset buf1) \<noteq> 0x3d
            then Inl (QueryError ''Expected comparison operator'' (offset buf1))
            else Inr (Some Equal, advance 1 buf1))
         else if c = 0x21 then
           (if offset buf1 \<ge> limit buf1 \<or> charCodeAt (input buf1) (offset buf1) \<noteq> 0x3d
            then Inl (QueryError ''Expected comparison operator'' (offset buf1))
            else Inr (Some NotEqual, advance 1 buf1))
         else if c = 0x3c then
           (if offset buf1 \<ge> limit buf1 \<or> charCodeAt (input buf1) (offset buf1) \<noteq> 0x3d
            then Inr (Some LessThan, buf1)
            else Inr (Some LessThanOrEqual, advance 1 buf1))
         else if c = 0x3e then
           (if offset buf1 \<ge> limit buf1 \<or> charCodeAt (input buf1) (offset buf1) \<noteq> 0x3d
            then Inr (Some GreaterThan, buf1)
            else Inr (Some GreaterThanOrEqual, advance 1 buf1))
         else Inr (None, buf))"

subsection \<open>Well-typedness checks\<close>

text \<open>Each check returns the \<open>QueryError\<close> it throws, if any.\<close>

fun checkLogicalType :: "Expression \<Rightarrow> InputBuffer \<Rightarrow> exn option" where
  "checkLogicalType (FunctionExpression func args) buf =
     (case resultType func of
        Value \<Rightarrow>
          Some (QueryError ''ValueType function not supported in test expression'' (offset buf))
      | Logical \<Rightarrow> None
      | Nodes \<Rightarrow> None)"
| "checkLogicalType expression buf = None"

fun checkComparableType :: "Expression \<Rightarrow> InputBuffer \<Rightarrow> exn option" where
  "checkComparableType (FunctionExpression func args) buf =
     (case resultType func of
        Value \<Rightarrow> None
      | Logical \<Rightarrow>
          Some (QueryError ''LogicalType function not supported in comparison expression''
                  (offset buf))
      | Nodes \<Rightarrow>
          Some (QueryError ''NodesType function not supported in comparison expression''
                  (offset buf)))"
| "checkComparableType expression buf = None"

definition checkValueArgumentType :: "FunctionExtension \<Rightarrow> InputBuffer \<Rightarrow> exn option" where
  "checkValueArgumentType func buf =
     (case resultType func of
        Value \<Rightarrow> None
      | Logical \<Rightarrow>
          Some (QueryError
                  ''LogicalType function not supported in ValueType argument position''
                  (offset buf))
      | Nodes \<Rightarrow>
          Some (QueryError ''NodesType function not supported in ValueType argument position''
                  (offset buf)))"

definition checkLogicalArgumentType :: "FunctionExtension \<Rightarrow> InputBuffer \<Rightarrow> exn option" where
  "checkLogicalArgumentType func buf =
     (case resultType func of
        Value \<Rightarrow>
          Some (QueryError
                  ''ValueType function not supported in LogicalType argument position''
                  (offset buf))
      | Logical \<Rightarrow> None
      | Nodes \<Rightarrow> None)"

definition checkNodesArgumentType :: "FunctionExtension \<Rightarrow> InputBuffer \<Rightarrow> exn option" where
  "checkNodesArgumentType func buf =
     (case resultType func of
        Value \<Rightarrow>
          Some (QueryError ''ValueType function not supported in NodesType argument position''
                  (offset buf))
      | Logical \<Rightarrow>
          Some (QueryError
                  ''LogicalType function not supported in NodesType argument position''
                  (offset buf))
      | Nodes \<Rightarrow> None)"

fun isQueryExpression :: "Expression \<Rightarrow> bool" where
  "isQueryExpression (QueryExpression identifier segs) = True"
| "isQueryExpression expression = False"

fun isLiteralExpression :: "Expression \<Rightarrow> bool" where
  "isLiteralExpression (LiteralExpression v) = True"
| "isLiteralExpression expression = False"

text \<open>\<open>isSingularQuery(expression)\<close> applied to an expression reads its segments.\<close>

fun isSingularQueryExpression :: "Expression \<Rightarrow> bool" where
  "isSingularQueryExpression (QueryExpression identifier segs) = isSingularQuery segs"
| "isSingularQueryExpression expression = False"

fun checkArgumentType :: "DeclaredType \<Rightarrow> Expression \<Rightarrow> InputBuffer \<Rightarrow> exn option" where
  "checkArgumentType parameterType (FunctionExpression func args) buf =
     (case parameterType of
        Value \<Rightarrow> checkValueArgumentType func buf
      | Logical \<Rightarrow> checkLogicalArgumentType func buf
      | Nodes \<Rightarrow> checkNodesArgumentType func buf)"
| "checkArgumentType parameterType expression buf =
     (case parameterType of
        Value \<Rightarrow>
          (if isQueryExpression expression then
             (if \<not> isSingularQueryExpression expression
              then Some (QueryError
                           ''Expected singular query expression in ValueType argument position''
                           (offset buf))
              else None)
           else if \<not> isLiteralExpression expression
           then Some (QueryError ''Expected literal expression in ValueType argument position''
                        (offset buf))
           else None)
      | Logical \<Rightarrow>
          (if isLiteralExpression expression
           then Some (QueryError
                        ''Expected logical expression in LogicalType argument position''
                        (offset buf))
           else None)
      | Nodes \<Rightarrow>
          (if \<not> isQueryExpression expression
           then Some (QueryError ''Expected query expression in NodesType argument position''
                        (offset buf))
           else None))"

subsection \<open>The recursive descent\<close>

text \<open>
  The parsing functions call each other recursively on the rest of the input. They are
  defined by recursion on a bound on the depth of calls (the first argument); a call that
  exhausts it returns \<open>OutOfFuel\<close>. The entry points further down supply a bound computed
  from the length of the input, and \<open>OutOfFuel\<close> is proved unreachable from them.

  A function that the source overloads on \<open>string | InputBuffer\<close> takes a sum: \<open>Inl\<close> is
  the public call on a string, which must consume the whole input, \<open>Inr\<close> the internal call
  on the shared buffer.

  The parser assigns \<open>context.queryScope\<close> around a nested call and restores it in a
  \<open>finally\<close> block: the nested call receives the updated context, and the caller goes on
  with its own.
\<close>

datatype 'a parsed = Parsed 'a InputBuffer | Thrown exn | OutOfFuel

definition bufferOf :: "jsstring + InputBuffer \<Rightarrow> InputBuffer" where
  "bufferOf inp = (case inp of Inl s \<Rightarrow> stringBuffer s | Inr buf \<Rightarrow> buf)"

text \<open>\<open>typeof input === "string" && buf.offset !== input.length\<close>\<close>

definition unconsumed :: "jsstring + InputBuffer \<Rightarrow> InputBuffer \<Rightarrow> bool" where
  "unconsumed inp buf = (case inp of Inl s \<Rightarrow> offset buf \<noteq> length s | Inr b \<Rightarrow> False)"

definition finishSegment ::
  "jsstring + InputBuffer \<Rightarrow> Segment option \<Rightarrow> InputBuffer \<Rightarrow> Segment option parsed" where
  "finishSegment inp segment buf =
     (if unconsumed inp buf then Thrown (QueryError ''Invalid JSONPath segment'' (offset buf))
      else Parsed segment buf)"

definition dotSegment :: "nat \<Rightarrow> Selector \<Rightarrow> Segment" where
  "dotSegment dotCount selector =
     (if dotCount = 1 then ChildSegment [selector] else DescendantSegment [selector])"

text \<open>\<open>expr\<close> in \<open>parseOrExpression\<close> and \<open>parseAndExpression\<close> is a single expression
  until a second operand is parsed, and an array from then on.\<close>

definition pushOperand ::
  "Expression list + Expression \<Rightarrow> Expression \<Rightarrow> Expression list + Expression" where
  "pushOperand expr operand =
     (case expr of Inr e \<Rightarrow> Inl [e, operand] | Inl es \<Rightarrow> Inl (es @ [operand]))"

definition parseNameSelector :: "InputBuffer \<Rightarrow> Selector scan" where
  "parseNameSelector buf =
     (case parseStringLiteral buf of
        Inl e \<Rightarrow> Inl e
      | Inr (nm, buf1) \<Rightarrow> Inr (NameSelector nm, buf1))"

definition parseWildcardSelector :: "InputBuffer \<Rightarrow> Selector scan" where
  "parseWildcardSelector buf =
     (if peek buf \<noteq> 0x2a then Inl (QueryError ''Expected wildcard selector'' (offset buf))
      else Inr (WildcardSelector, advance 1 buf))"

text \<open>The recurring \<open>if (c === 0x2d || isDigit(c)) { x = parseInt(buf); ... }\<close> of
  \<open>parseArraySelector\<close>, which leaves \<open>x\<close> undefined otherwise.\<close>

definition parseOptionalInt :: "InputBuffer \<Rightarrow> int option scan" where
  "parseOptionalInt buf =
     (if peek buf = 0x2d \<or> isDigit (peek buf) then
        (case parseInt buf of Inl e \<Rightarrow> Inl e | Inr (v, buf1) \<Rightarrow> Inr (Some v, buf1))
      else Inr (None, buf))"

definition parseArraySelector :: "InputBuffer \<Rightarrow> Selector scan" where
  "parseArraySelector buf =
     (case parseOptionalInt buf of
        Inl e \<Rightarrow> Inl e
      | Inr (start, buf0) \<Rightarrow>
          (let buf1 = (if start \<noteq> None then parseBlankSpace buf0 else buf0) in
           if peek buf1 \<noteq> 0x3a then
             (case start of
                None \<Rightarrow> Inl (QueryError ''Expected index selector'' (offset buf1))
              | Some i \<Rightarrow> Inr (IndexSelector i, buf1))
           else
             (case parseOptionalInt (parseBlankSpace (advance 1 buf1)) of
                Inl e \<Rightarrow> Inl e
              | Inr (end, buf2) \<Rightarrow>
                  (let buf3 = (if end \<noteq> None then parseBlankSpace buf2 else buf2) in
                   if peek buf3 = 0x3a then
                     (case parseOptionalInt (parseBlankSpace (advance 1 buf3)) of
                        Inl e \<Rightarrow> Inl e
                      | Inr (step, buf4) \<Rightarrow> Inr (SliceSelector start end step, buf4))
                   else Inr (SliceSelector start end None, buf3)))))"

function (sequential)
    parseSegments :: "nat \<Rightarrow> QueryContext \<Rightarrow> InputBuffer \<Rightarrow> Segment list \<Rightarrow> Segment list parsed"
and parseSegment_fuel ::
      "nat \<Rightarrow> QueryContext \<Rightarrow> jsstring + InputBuffer \<Rightarrow> Segment option parsed"
and parseBracketedSelection ::
      "nat \<Rightarrow> QueryContext \<Rightarrow> jsstring + InputBuffer \<Rightarrow> nat \<Rightarrow> InputBuffer
        \<Rightarrow> Segment option parsed"
and parseSelectorsLoop ::
      "nat \<Rightarrow> QueryContext \<Rightarrow> InputBuffer \<Rightarrow> Selector list \<Rightarrow> Selector list parsed"
and parseSelector_fuel :: "nat \<Rightarrow> QueryContext \<Rightarrow> jsstring + InputBuffer \<Rightarrow> Selector parsed"
and parseFilterSelector :: "nat \<Rightarrow> QueryContext \<Rightarrow> InputBuffer \<Rightarrow> Selector parsed"
and parseExpression_fuel ::
      "nat \<Rightarrow> QueryContext \<Rightarrow> jsstring + InputBuffer \<Rightarrow> Expression parsed"
and parseOrExpression :: "nat \<Rightarrow> QueryContext \<Rightarrow> InputBuffer \<Rightarrow> Expression parsed"
and parseOrLoop ::
      "nat \<Rightarrow> QueryContext \<Rightarrow> InputBuffer \<Rightarrow> Expression list + Expression \<Rightarrow> Expression parsed"
and parseAndExpression :: "nat \<Rightarrow> QueryContext \<Rightarrow> InputBuffer \<Rightarrow> Expression parsed"
and parseAndLoop ::
      "nat \<Rightarrow> QueryContext \<Rightarrow> InputBuffer \<Rightarrow> Expression list + Expression \<Rightarrow> Expression parsed"
and parseBasicExpression :: "nat \<Rightarrow> QueryContext \<Rightarrow> InputBuffer \<Rightarrow> Expression parsed"
and parseParenExpression :: "nat \<Rightarrow> QueryContext \<Rightarrow> InputBuffer \<Rightarrow> Expression parsed"
and parseComparable :: "nat \<Rightarrow> QueryContext \<Rightarrow> InputBuffer \<Rightarrow> Expression parsed"
and parseFunctionArguments ::
      "nat \<Rightarrow> FunctionExtension \<Rightarrow> QueryContext \<Rightarrow> InputBuffer \<Rightarrow> Expression parsed"
and parseArgumentsLoop ::
      "nat \<Rightarrow> FunctionExtension \<Rightarrow> QueryContext \<Rightarrow> InputBuffer \<Rightarrow> Expression list
        \<Rightarrow> Expression list parsed"
where
  "parseSegments 0 ctx buf segs = OutOfFuel"
| "parseSegments (Suc n) ctx buf segs =
     (case parseSegment_fuel n ctx (Inr (parseBlankSpace buf)) of
        Parsed (Some segment) buf1 \<Rightarrow> parseSegments n ctx buf1 (segs @ [segment])
      | Parsed None buf1 \<Rightarrow> Parsed segs buf1
      | Thrown e \<Rightarrow> Thrown e
      | OutOfFuel \<Rightarrow> OutOfFuel)"

| "parseSegment_fuel 0 ctx inp = OutOfFuel"
| "parseSegment_fuel (Suc n) ctx inp =
     (let buf = bufferOf inp;
          c = peek buf
      in if c = 0x2e then
           (let buf1 = advance 1 buf;
                c1 = peek buf1;
                dotCount = (if c1 = 0x2e then 2 else 1);
                buf2 = (if c1 = 0x2e then advance 1 buf1 else buf1);
                c2 = (if c1 = 0x2e then peek buf2 else c1)
            in if c2 = 0x2a
               then finishSegment inp (Some (dotSegment dotCount WildcardSelector))
                      (advance 1 buf2)
               else if isNameFirstChar c2 then
                 (case parseShorthandName buf2 of
                    Inl e \<Rightarrow> Thrown e
                  | Inr (nm, buf3) \<Rightarrow>
                      finishSegment inp (Some (dotSegment dotCount (NameSelector nm))) buf3)
               else if dotCount = 1
               then Thrown (QueryError ''Expected dot segment'' (offset buf2))
               else parseBracketedSelection n ctx inp dotCount buf2)
         else parseBracketedSelection n ctx inp 0 buf)"

| "parseBracketedSelection 0 ctx inp dotCount buf = OutOfFuel"
| "parseBracketedSelection (Suc n) ctx inp dotCount buf =
     (if peek buf \<noteq> 0x5b then
        (if dotCount = 0 then finishSegment inp None buf
         else Thrown (QueryError ''Expected bracketed selection'' (offset buf)))
      else
        (case parseSelectorsLoop n ctx (parseBlankSpace (advance 1 buf)) [] of
           Parsed sels buf1 \<Rightarrow>
             finishSegment inp
               (Some (if dotCount \<noteq> 2 then ChildSegment sels else DescendantSegment sels)) buf1
         | Thrown e \<Rightarrow> Thrown e
         | OutOfFuel \<Rightarrow> OutOfFuel))"

| "parseSelectorsLoop 0 ctx buf sels = OutOfFuel"
| "parseSelectorsLoop (Suc n) ctx buf sels =
     (if offset buf < limit buf \<and> charCodeAt (input buf) (offset buf) = 0x5d
      then Parsed sels (advance 1 buf)
      else if length sels \<noteq> 0
              \<and> (offset buf \<ge> limit buf \<or> charCodeAt (input buf) (offset buf) \<noteq> 0x2c)
      then Thrown (QueryError ''Expected comma'' (offset buf))
      else
        (let buf1 = (if length sels \<noteq> 0 then parseBlankSpace (advance 1 buf) else buf)
         in case parseSelector_fuel n ctx (Inr buf1) of
              Parsed selector buf2 \<Rightarrow>
                parseSelectorsLoop n ctx (parseBlankSpace buf2) (sels @ [selector])
            | Thrown e \<Rightarrow> Thrown e
            | OutOfFuel \<Rightarrow> OutOfFuel))"

| "parseSelector_fuel 0 ctx inp = OutOfFuel"
| "parseSelector_fuel (Suc n) ctx inp =
     (let buf = bufferOf inp;
          c = peek buf
      in case (if c = 0x22 \<or> c = 0x27 then
                 (case parseNameSelector buf of
                    Inl e \<Rightarrow> Thrown e | Inr (selector, buf1) \<Rightarrow> Parsed selector buf1)
               else if c = 0x2a then
                 (case parseWildcardSelector buf of
                    Inl e \<Rightarrow> Thrown e | Inr (selector, buf1) \<Rightarrow> Parsed selector buf1)
               else if c = 0x2d \<or> isDigit c \<or> c = 0x3a then
                 (case parseArraySelector buf of
                    Inl e \<Rightarrow> Thrown e | Inr (selector, buf1) \<Rightarrow> Parsed selector buf1)
               else if c = 0x3f then parseFilterSelector n ctx buf
               else Thrown (QueryError ''Expected selector'' (offset buf))) of
           Parsed selector buf1 \<Rightarrow>
             if unconsumed inp buf1
             then Thrown (QueryError ''Invalid JSONPath selector'' (offset buf1))
             else Parsed selector buf1
         | Thrown e \<Rightarrow> Thrown e
         | OutOfFuel \<Rightarrow> OutOfFuel)"

| "parseFilterSelector 0 ctx buf = OutOfFuel"
| "parseFilterSelector (Suc n) ctx buf =
     (if offset buf \<ge> limit buf \<or> charCodeAt (input buf) (offset buf) \<noteq> 0x3f
      then Thrown (QueryError ''Expected filter selector'' (offset buf))
      else
        (case parseExpression_fuel n (ctx\<lparr>queryScope := Some ScopeExpression\<rparr>)
                (Inr (parseBlankSpace (advance 1 buf))) of
           Parsed expression buf1 \<Rightarrow> Parsed (FilterSelector expression) buf1
         | Thrown e \<Rightarrow> Thrown e
         | OutOfFuel \<Rightarrow> OutOfFuel))"

| "parseExpression_fuel 0 ctx inp = OutOfFuel"
| "parseExpression_fuel (Suc n) ctx inp =
     (case parseOrExpression n ctx (bufferOf inp) of
        Parsed expression buf1 \<Rightarrow>
          if unconsumed inp buf1
          then Thrown (QueryError ''Invalid JSONPath expression'' (offset buf1))
          else Parsed expression buf1
      | Thrown e \<Rightarrow> Thrown e
      | OutOfFuel \<Rightarrow> OutOfFuel)"

| "parseOrExpression 0 ctx buf = OutOfFuel"
| "parseOrExpression (Suc n) ctx buf =
     (case parseAndExpression n ctx buf of
        Parsed expr buf1 \<Rightarrow> parseOrLoop n ctx buf1 (Inr expr)
      | Thrown e \<Rightarrow> Thrown e
      | OutOfFuel \<Rightarrow> OutOfFuel)"
| "parseOrLoop 0 ctx buf expr = OutOfFuel"
| "parseOrLoop (Suc n) ctx buf expr =
     (let buf1 = parseBlankSpace buf in
      if offset buf1 \<ge> limit buf1 \<or> charCodeAt (input buf1) (offset buf1) \<noteq> 0x7c
      then Parsed (case expr of Inl es \<Rightarrow> OrExpression es | Inr e \<Rightarrow> e) buf1
      else
        (let buf2 = advance 1 buf1 in
         if offset buf2 \<ge> limit buf2 \<or> charCodeAt (input buf2) (offset buf2) \<noteq> 0x7c
         then Thrown (QueryError ''Expected || operator'' (offset buf2))
         else
           (case parseAndExpression n ctx (parseBlankSpace (advance 1 buf2)) of
              Parsed operand buf3 \<Rightarrow> parseOrLoop n ctx buf3 (pushOperand expr operand)
            | Thrown e \<Rightarrow> Thrown e
            | OutOfFuel \<Rightarrow> OutOfFuel)))"

| "parseAndExpression 0 ctx buf = OutOfFuel"
| "parseAndExpression (Suc n) ctx buf =
     (case parseBasicExpression n ctx buf of
        Parsed expr buf1 \<Rightarrow> parseAndLoop n ctx buf1 (Inr expr)
      | Thrown e \<Rightarrow> Thrown e
      | OutOfFuel \<Rightarrow> OutOfFuel)"
| "parseAndLoop 0 ctx buf expr = OutOfFuel"
| "parseAndLoop (Suc n) ctx buf expr =
     (let buf1 = parseBlankSpace buf in
      if offset buf1 \<ge> limit buf1 \<or> charCodeAt (input buf1) (offset buf1) \<noteq> 0x26
      then Parsed (case expr of Inl es \<Rightarrow> AndExpression es | Inr e \<Rightarrow> e) buf1
      else
        (let buf2 = advance 1 buf1 in
         if offset buf2 \<ge> limit buf2 \<or> charCodeAt (input buf2) (offset buf2) \<noteq> 0x26
         then Thrown (QueryError ''Expected && operator'' (offset buf2))
         else
           (case parseBasicExpression n ctx (parseBlankSpace (advance 1 buf2)) of
              Parsed operand buf3 \<Rightarrow> parseAndLoop n ctx buf3 (pushOperand expr operand)
            | Thrown e \<Rightarrow> Thrown e
            | OutOfFuel \<Rightarrow> OutOfFuel)))"

| "parseBasicExpression 0 ctx buf = OutOfFuel"
| "parseBasicExpression (Suc n) ctx buf =
     (let unaryOp = (offset buf < limit buf \<and> charCodeAt (input buf) (offset buf) = 0x21);
          buf1 = (if unaryOp then parseBlankSpace (advance 1 buf) else buf)
      in case (if peek buf1 = 0x28 then parseParenExpression n ctx buf1
               else
                 (case parseComparable n ctx buf1 of
                    Parsed expr buf2 \<Rightarrow>
                      if \<not> unaryOp then
                        (case parseComparisonOperator (parseBlankSpace buf2) of
                           Inl e \<Rightarrow> Thrown e
                         | Inr (Some operator, buf3) \<Rightarrow>
                             (let buf4 = parseBlankSpace buf3 in
                              if isQueryExpression expr \<and> \<not> isSingularQueryExpression expr
                              then Thrown (QueryError ''Only singular queries can be compared''
                                             (offset buf2))
                              else
                                (case checkComparableType expr buf4 of
                                   Some e \<Rightarrow> Thrown e
                                 | None \<Rightarrow>
                                     (case parseComparable n ctx buf4 of
                                        Parsed rhs buf5 \<Rightarrow>
                                          if isQueryExpression rhs
                                             \<and> \<not> isSingularQueryExpression rhs
                                          then Thrown (QueryError
                                                 ''Only singular queries can be compared''
                                                 (offset buf5))
                                          else
                                            (case checkComparableType rhs buf5 of
                                               Some e \<Rightarrow> Thrown e
                                             | None \<Rightarrow>
                                                 Parsed (ComparisonExpression expr operator rhs)
                                                   buf5)
                                      | Thrown e \<Rightarrow> Thrown e
                                      | OutOfFuel \<Rightarrow> OutOfFuel)))
                         | Inr (None, buf3) \<Rightarrow>
                             if queryScope ctx \<noteq> Some ScopeArgument then
                               (case checkLogicalType expr buf3 of
                                  Some e \<Rightarrow> Thrown e | None \<Rightarrow> Parsed expr buf3)
                             else Parsed expr buf3)
                      else if queryScope ctx \<noteq> Some ScopeArgument then
                        (case checkLogicalType expr buf2 of
                           Some e \<Rightarrow> Thrown e | None \<Rightarrow> Parsed expr buf2)
                      else Parsed expr buf2
                  | Thrown e \<Rightarrow> Thrown e
                  | OutOfFuel \<Rightarrow> OutOfFuel)) of
           Parsed expr buf6 \<Rightarrow>
             Parsed (if unaryOp then NotExpression expr else expr) buf6
         | Thrown e \<Rightarrow> Thrown e
         | OutOfFuel \<Rightarrow> OutOfFuel)"

| "parseParenExpression 0 ctx buf = OutOfFuel"
| "parseParenExpression (Suc n) ctx buf =
     (if offset buf \<ge> limit buf \<or> charCodeAt (input buf) (offset buf) \<noteq> 0x28
      then Thrown (QueryError ''Expected open parenthesis'' (offset buf))
      else
        (case parseExpression_fuel n ctx (Inr (parseBlankSpace (advance 1 buf))) of
           Parsed expression buf1 \<Rightarrow>
             (let buf2 = parseBlankSpace buf1 in
              if offset buf2 \<ge> limit buf2 \<or> charCodeAt (input buf2) (offset buf2) \<noteq> 0x29
              then Thrown (QueryError ''Expected close parenthesis'' (offset buf2))
              else Parsed expression (advance 1 buf2))
         | Thrown e \<Rightarrow> Thrown e
         | OutOfFuel \<Rightarrow> OutOfFuel))"

| "parseComparable 0 ctx buf = OutOfFuel"
| "parseComparable (Suc n) ctx buf =
     (let c = peek buf in
      if c = 0x40 then
        (case parseSegments n ctx (advance 1 buf) [] of
           Parsed segs buf1 \<Rightarrow> Parsed (QueryExpression (ascii ''@'') segs) buf1
         | Thrown e \<Rightarrow> Thrown e
         | OutOfFuel \<Rightarrow> OutOfFuel)
      else if c = 0x24 then
        (case parseSegments n ctx (advance 1 buf) [] of
           Parsed segs buf1 \<Rightarrow> Parsed (QueryExpression (ascii ''$'') segs) buf1
         | Thrown e \<Rightarrow> Thrown e
         | OutOfFuel \<Rightarrow> OutOfFuel)
      else if c = 0x22 \<or> c = 0x27 then
        (case parseStringLiteral buf of
           Inl e \<Rightarrow> Thrown e
         | Inr (v, buf1) \<Rightarrow> Parsed (LiteralExpression (JString v)) buf1)
      else if c = 0x2d \<or> isDigit c then
        (case parseNumber buf of
           Inl e \<Rightarrow> Thrown e
         | Inr (v, buf1) \<Rightarrow> Parsed (LiteralExpression (JNumber v)) buf1)
      else if \<not> isLowercase c
      then Thrown (QueryError ''Expected comparable expression'' (offset buf))
      else
        (case parseFunctionName buf of
           Inl e \<Rightarrow> Thrown e
         | Inr (nm, buf1) \<Rightarrow>
             if nm = ascii ''true'' then Parsed (LiteralExpression (JBool True)) buf1
             else if nm = ascii ''false'' then Parsed (LiteralExpression (JBool False)) buf1
             else if nm = ascii ''null'' then Parsed (LiteralExpression JNull) buf1
             else
               (case functionExtensions ctx nm of
                  None \<Rightarrow> Thrown (QueryError ''Unknown function'' (offset buf1))
                | Some func \<Rightarrow> parseFunctionArguments n func ctx buf1)))"

| "parseFunctionArguments 0 func ctx buf = OutOfFuel"
| "parseFunctionArguments (Suc n) func ctx buf =
     (if offset buf \<ge> limit buf \<or> charCodeAt (input buf) (offset buf) \<noteq> 0x28
      then Thrown (QueryError ''Expected function arguments'' (offset buf))
      else
        (case parseArgumentsLoop n func ctx (parseBlankSpace (advance 1 buf)) [] of
           Parsed args buf1 \<Rightarrow>
             if length args \<noteq> length (parameterTypes func)
             then Thrown (QueryError ''Expected a different number of arguments'' (offset buf1))
             else Parsed (FunctionExpression func args) buf1
         | Thrown e \<Rightarrow> Thrown e
         | OutOfFuel \<Rightarrow> OutOfFuel))"

| "parseArgumentsLoop 0 func ctx buf args = OutOfFuel"
| "parseArgumentsLoop (Suc n) func ctx buf args =
     (if offset buf < limit buf \<and> charCodeAt (input buf) (offset buf) = 0x29
      then Parsed args (advance 1 buf)
      else if length args \<noteq> 0
              \<and> (offset buf \<ge> limit buf \<or> charCodeAt (input buf) (offset buf) \<noteq> 0x2c)
      then Thrown (QueryError ''Expected comma'' (offset buf))
      else
        (let buf1 = (if length args \<noteq> 0 then parseBlankSpace (advance 1 buf) else buf)
         in if length args \<ge> length (parameterTypes func) then Parsed args buf1
            else
              (case parseExpression_fuel n (ctx\<lparr>queryScope := Some ScopeArgument\<rparr>)
                      (Inr buf1) of
                 Parsed arg buf2 \<Rightarrow>
                   (case checkArgumentType (parameterTypes func ! length args) arg buf2 of
                      Some e \<Rightarrow> Thrown e
                    | None \<Rightarrow>
                        parseArgumentsLoop n func ctx (parseBlankSpace buf2) (args @ [arg]))
               | Thrown e \<Rightarrow> Thrown e
               | OutOfFuel \<Rightarrow> OutOfFuel)))"
  by pat_completeness auto

termination
  by (relation "measure (case_sum (case_sum (case_sum (case_sum fst fst) (case_sum fst fst)) (case_sum (case_sum fst fst) (case_sum fst fst))) (case_sum (case_sum (case_sum fst fst) (case_sum fst fst)) (case_sum (case_sum fst fst) (case_sum fst fst))))") auto

definition parseQuery_fuel :: "nat \<Rightarrow> QueryContext \<Rightarrow> jsstring + InputBuffer \<Rightarrow> Query parsed" where
  "parseQuery_fuel n ctx inp =
     (let buf = bufferOf inp in
      if peek buf \<noteq> 0x24 then Thrown (QueryError ''Expected root identifier ($)'' (offset buf))
      else
        (case parseSegments n ctx (advance 1 buf) [] of
           Parsed segs buf1 \<Rightarrow>
             if unconsumed inp buf1
             then Thrown (QueryError ''Invalid JSONPath query'' (offset buf1))
             else Parsed (createQuery segs) buf1
         | Thrown e \<Rightarrow> Thrown e
         | OutOfFuel \<Rightarrow> OutOfFuel))"

definition fuelFor :: "jsstring \<Rightarrow> nat" where
  "fuelFor s = 6 * length s + 6"

definition parseQuery :: "jsstring \<Rightarrow> QueryContext \<Rightarrow> Query parsed" where
  "parseQuery s ctx = parseQuery_fuel (fuelFor s) ctx (Inl s)"

definition parseSegment :: "jsstring \<Rightarrow> QueryContext \<Rightarrow> Segment option parsed" where
  "parseSegment s ctx = parseSegment_fuel (fuelFor s) ctx (Inl s)"

section \<open>The formatter\<close>

definition isValidShorthandName :: "jsstring \<Rightarrow> bool" where
  "isValidShorthandName nm =
     (\<not> (length nm = 0 \<or> \<not> isNameFirstChar (charCodeAt nm 0))
      \<and> list_all (\<lambda>c. isNameChar (int c)) (drop 1 nm))"

text \<open>The test that opens \<open>formatChildSegment\<close> and \<open>formatDescendantSegment\<close>: a
  single selector that is a name valid as a shorthand (\<open>Some (Some name)\<close>) or a wildcard
  (\<open>Some None\<close>); every other list of selectors is printed in brackets.\<close>

definition shorthandSelector :: "Selector list \<Rightarrow> jsstring option option" where
  "shorthandSelector sels =
     (if length sels = 1 then
        (case sels ! 0 of
           NameSelector nm \<Rightarrow> if isValidShorthandName nm then Some (Some nm) else None
         | WildcardSelector \<Rightarrow> Some None
         | _ \<Rightarrow> None)
      else None)"

text \<open>\<open>c.toString(16)\<close> and \<open>padStart(4, "0")\<close>.\<close>

definition hexDigit :: "nat \<Rightarrow> nat" where
  "hexDigit d = (if d < 10 then 0x30 + d else 0x57 + d)"

function toString16 :: "nat \<Rightarrow> jsstring" where
  "toString16 c = (if c < 16 then [hexDigit c] else toString16 (c div 16) @ [hexDigit (c mod 16)])"
  by pat_completeness auto
termination
  by (relation "measure (\<lambda>c. c)") auto

declare toString16.simps [simp del]

definition padStart :: "nat \<Rightarrow> nat \<Rightarrow> jsstring \<Rightarrow> jsstring" where
  "padStart k c s = replicate (k - length s) c @ s"

text \<open>\<open>String(n)\<close> for an integer \<open>n\<close> (below \<open>10^21\<close> in magnitude, where JavaScript
  switches to exponent notation).\<close>

function decimalDigits :: "nat \<Rightarrow> jsstring" where
  "decimalDigits k =
     (if k < 10 then [0x30 + k] else decimalDigits (k div 10) @ [0x30 + k mod 10])"
  by pat_completeness auto
termination
  by (relation "measure (\<lambda>k. k)") auto

declare decimalDigits.simps [simp del]

definition StringOf :: "int \<Rightarrow> jsstring" where
  "StringOf i = (if i < 0 then 0x2d # decimalDigits (nat (- i)) else decimalDigits (nat i))"

text \<open>The body of the loop of \<open>formatStringLiteral\<close>: what one code unit contributes
  (\<open>0x5c\<close> is the backslash).\<close>

definition formatStringChar :: "nat \<Rightarrow> jsstring" where
  "formatStringChar c =
     (if isUnescapedStringChar (int c) \<or> c = 0x22 then [c]
      else if c = 0x27 then [0x5c, 0x27]
      else if c = 0x08 then [0x5c, 0x62]
      else if c = 0x0c then [0x5c, 0x66]
      else if c = 0x0a then [0x5c, 0x6e]
      else if c = 0x0d then [0x5c, 0x72]
      else if c = 0x09 then [0x5c, 0x74]
      else if c = 0x2f then [0x5c, 0x2f]
      else if c = 0x5c then [0x5c, 0x5c]
      else [0x5c, 0x75] @ padStart 4 0x30 (toString16 c))"

definition formatStringLiteral :: "jsstring \<Rightarrow> jsstring" where
  "formatStringLiteral v = [0x27] @ concat (map formatStringChar v) @ [0x27]"


text \<open>
  The formatter proper. \<open>JSON.stringify\<close>, which prints the literals that are not
  strings, is a parameter (numbers are doubles). The \<open>for\<close> loops carry their index and
  the output built so far.
\<close>

function (sequential)
    formatSegments :: "(Node \<Rightarrow> jsstring) \<Rightarrow> Segment list \<Rightarrow> jsstring \<Rightarrow> jsstring"
and formatSegment :: "(Node \<Rightarrow> jsstring) \<Rightarrow> Segment \<Rightarrow> jsstring"
and formatChildSegment :: "(Node \<Rightarrow> jsstring) \<Rightarrow> Selector list \<Rightarrow> jsstring"
and formatDescendantSegment :: "(Node \<Rightarrow> jsstring) \<Rightarrow> Selector list \<Rightarrow> jsstring"
and formatSelectorsLoop ::
      "(Node \<Rightarrow> jsstring) \<Rightarrow> Selector list \<Rightarrow> nat \<Rightarrow> jsstring \<Rightarrow> jsstring"
and formatSelector :: "(Node \<Rightarrow> jsstring) \<Rightarrow> Selector \<Rightarrow> jsstring"
and formatFilterSelector :: "(Node \<Rightarrow> jsstring) \<Rightarrow> Expression \<Rightarrow> jsstring"
and formatExpression :: "(Node \<Rightarrow> jsstring) \<Rightarrow> Expression \<Rightarrow> jsstring"
and formatOrExpression ::
      "(Node \<Rightarrow> jsstring) \<Rightarrow> Expression list \<Rightarrow> nat \<Rightarrow> jsstring \<Rightarrow> jsstring"
and formatAndExpression ::
      "(Node \<Rightarrow> jsstring) \<Rightarrow> Expression list \<Rightarrow> nat \<Rightarrow> jsstring \<Rightarrow> jsstring"
and formatComparisonExpression ::
      "(Node \<Rightarrow> jsstring) \<Rightarrow> Expression \<Rightarrow> ComparisonOperator \<Rightarrow> Expression \<Rightarrow> jsstring"
and formatNotExpression :: "(Node \<Rightarrow> jsstring) \<Rightarrow> Expression \<Rightarrow> jsstring"
and formatQueryExpression :: "(Node \<Rightarrow> jsstring) \<Rightarrow> jsstring \<Rightarrow> Segment list \<Rightarrow> jsstring"
and formatFunctionExpression ::
      "(Node \<Rightarrow> jsstring) \<Rightarrow> FunctionExtension \<Rightarrow> Expression list \<Rightarrow> jsstring"
and formatArgumentsLoop ::
      "(Node \<Rightarrow> jsstring) \<Rightarrow> Expression list \<Rightarrow> nat \<Rightarrow> jsstring \<Rightarrow> jsstring"
and parenthesizeExpression :: "(Node \<Rightarrow> jsstring) \<Rightarrow> Expression \<Rightarrow> nat \<Rightarrow> jsstring"
where
  "formatSegments stringify [] output = output"
| "formatSegments stringify (segment # rest) output =
     formatSegments stringify rest (output @ formatSegment stringify segment)"

| "formatSegment stringify (ChildSegment sels) = formatChildSegment stringify sels"
| "formatSegment stringify (DescendantSegment sels) = formatDescendantSegment stringify sels"

| "formatChildSegment stringify sels =
     (case shorthandSelector sels of
        Some (Some nm) \<Rightarrow> ascii ''.'' @ nm
      | Some None \<Rightarrow> ascii ''.*''
      | None \<Rightarrow> formatSelectorsLoop stringify sels 0 (ascii ''['') @ ascii '']'')"

| "formatDescendantSegment stringify sels =
     (case shorthandSelector sels of
        Some (Some nm) \<Rightarrow> ascii ''..'' @ nm
      | Some None \<Rightarrow> ascii ''..*''
      | None \<Rightarrow> formatSelectorsLoop stringify sels 0 (ascii ''..['') @ ascii '']'')"

| "formatSelectorsLoop stringify [] i output = output"
| "formatSelectorsLoop stringify (selector # rest) i output =
     formatSelectorsLoop stringify rest (i + 1)
       ((if i \<noteq> 0 then output @ ascii '', '' else output) @ formatSelector stringify selector)"

| "formatSelector stringify (NameSelector nm) = formatStringLiteral nm"
| "formatSelector stringify WildcardSelector = ascii ''*''"
| "formatSelector stringify (IndexSelector i) = StringOf i"
| "formatSelector stringify (SliceSelector start end step) =
     (case start of None \<Rightarrow> [] | Some i \<Rightarrow> StringOf i) @ ascii '':''
     @ (case end of None \<Rightarrow> [] | Some i \<Rightarrow> StringOf i)
     @ (case step of None \<Rightarrow> [] | Some i \<Rightarrow> ascii '':'' @ StringOf i)"
| "formatSelector stringify (FilterSelector expression) =
     formatFilterSelector stringify expression"

| "formatFilterSelector stringify expression =
     ascii ''?'' @ formatExpression stringify expression"

| "formatExpression stringify (OrExpression operands) =
     formatOrExpression stringify operands 0 []"
| "formatExpression stringify (AndExpression operands) =
     formatAndExpression stringify operands 0 []"
| "formatExpression stringify (ComparisonExpression lhs operator rhs) =
     formatComparisonExpression stringify lhs operator rhs"
| "formatExpression stringify (NotExpression operand) =
     formatNotExpression stringify operand"
| "formatExpression stringify (QueryExpression identifier segs) =
     formatQueryExpression stringify identifier segs"
| "formatExpression stringify (LiteralExpression v) =
     (case v of JString s \<Rightarrow> formatStringLiteral s | _ \<Rightarrow> stringify v)"
| "formatExpression stringify (FunctionExpression func args) =
     formatFunctionExpression stringify func args"

| "formatOrExpression stringify [] i output = output"
| "formatOrExpression stringify (operand # rest) i output =
     formatOrExpression stringify rest (i + 1)
       ((if i \<noteq> 0 then output @ ascii '' || '' else output)
        @ parenthesizeExpression stringify operand 1)"

| "formatAndExpression stringify [] i output = output"
| "formatAndExpression stringify (operand # rest) i output =
     formatAndExpression stringify rest (i + 1)
       ((if i \<noteq> 0 then output @ ascii '' && '' else output)
        @ parenthesizeExpression stringify operand 2)"

| "formatComparisonExpression stringify lhs operator rhs =
     parenthesizeExpression stringify lhs 3
     @ (case operator of
          Equal \<Rightarrow> ascii '' == ''
        | NotEqual \<Rightarrow> ascii '' != ''
        | LessThan \<Rightarrow> ascii '' < ''
        | LessThanOrEqual \<Rightarrow> ascii '' <= ''
        | GreaterThan \<Rightarrow> ascii '' > ''
        | GreaterThanOrEqual \<Rightarrow> ascii '' >= '')
     @ parenthesizeExpression stringify rhs 3"

| "formatNotExpression stringify operand =
     ascii ''!'' @ parenthesizeExpression stringify operand 4"

| "formatQueryExpression stringify identifier segs = formatSegments stringify segs identifier"

| "formatFunctionExpression stringify func args =
     formatArgumentsLoop stringify args 0 (name func @ ascii ''('') @ ascii '')''"
| "formatArgumentsLoop stringify [] i output = output"
| "formatArgumentsLoop stringify (arg # rest) i output =
     formatArgumentsLoop stringify rest (i + 1)
       ((if i \<noteq> 0 then output @ ascii '', '' else output) @ formatExpression stringify arg)"

| "parenthesizeExpression stringify expression requiredPrecedence =
     (if getExpressionPrecedence expression < requiredPrecedence
      then ascii ''('' @ formatExpression stringify expression @ ascii '')''
      else formatExpression stringify expression)"
  by pat_completeness auto

text \<open>Termination: as for the evaluator, the syntax tree shrinks or the rank drops.\<close>

termination
  by (relation "measure (case_sum (case_sum (case_sum (case_sum (\<lambda>(st, segs, out). 4
       * (size_list size segs) + 0) (\<lambda>(st, seg). 4 * (size seg) + 0)) (case_sum
       (\<lambda>(st, sels). 4 * (size_list size sels) + 1) (\<lambda>(st, sels). 4 *
       (size_list size sels) + 1))) (case_sum (case_sum (\<lambda>(st, sels, i, out). 4 *
       (size_list size sels) + 0) (\<lambda>(st, sel). 4 * (size sel) + 0)) (case_sum
       (\<lambda>(st, e). 4 * (size e) + 1) (\<lambda>(st, e). 4 * (size e) + 0))))
       (case_sum (case_sum (case_sum (\<lambda>(st, es, i, out). 4 * (size_list size es) +
       0) (\<lambda>(st, es, i, out). 4 * (size_list size es) + 0)) (case_sum (\<lambda>(st,
       l, operator, r). 4 * (size l + size r) + 2) (\<lambda>(st, e). 4 * (size e) + 2)))
       (case_sum (case_sum (\<lambda>(st, i, segs). 4 * (size_list size segs) + 1)
       (\<lambda>(st, f, es). 4 * (size_list size es) + 1)) (case_sum (\<lambda>(st, es, i,
       out). 4 * (size_list size es) + 0) (\<lambda>(st, e, p). 4 * (size e) + 1)))))") auto

definition formatQuery :: "(Node \<Rightarrow> jsstring) \<Rightarrow> Query \<Rightarrow> jsstring" where
  "formatQuery stringify query = formatSegments stringify (segments query) (ascii ''$'')"

section \<open>The intrinsic functions \<open>match\<close> and \<open>search\<close>\<close>

text \<open>
  An evaluated argument is a JavaScript value whatever the type it was evaluated under: a
  logical is a boolean and a nodelist is an array. \<open>args[i]\<close> is \<open>undefined\<close> past the
  end of the argument list.
\<close>

fun asNode :: "ExpressionType \<Rightarrow> Node" where
  "asNode (ValueArg v) = v"
| "asNode (LogicalArg b) = JBool b"
| "asNode (NodesArg nodes) = JArray nodes"

definition argumentAt :: "ExpressionType list \<Rightarrow> nat \<Rightarrow> Node" where
  "argumentAt args i = (if i < length args then asNode (args ! i) else JUndefined)"

text \<open>
  The regular expression engine is a parameter: \<open>RegExp pattern\<close> stands for
  \<open>new RegExp(pattern)\<close>, which either throws a \<open>SyntaxError\<close> or constructs an object
  whose \<open>test\<close> method is the function returned.
\<close>

type_synonym RegExpConstructor = "jsstring \<Rightarrow> exn + (jsstring \<Rightarrow> bool)"

definition matchEvaluate ::
  "RegExpConstructor \<Rightarrow> ExpressionType list \<Rightarrow> Node \<Rightarrow> exn + LogicalType" where
  "matchEvaluate RegExp args queryArg =
     (case (argumentAt args 0, argumentAt args 1) of
        (JString v, JString regex) \<Rightarrow>
          (case RegExp (ascii ''^(?:'' @ regex @ ascii '')$'') of
             Inl e \<Rightarrow> Inl e
           | Inr test \<Rightarrow> Inr (test v))
      | _ \<Rightarrow> Inr False)"

definition matchFunction :: "RegExpConstructor \<Rightarrow> FunctionExtension" where
  "matchFunction RegExp =
     LogicalFunctionExtension (ascii ''match'') [Value, Value] (matchEvaluate RegExp)"

definition searchEvaluate ::
  "RegExpConstructor \<Rightarrow> ExpressionType list \<Rightarrow> Node \<Rightarrow> exn + LogicalType" where
  "searchEvaluate RegExp args queryArg =
     (case (argumentAt args 0, argumentAt args 1) of
        (JString v, JString regex) \<Rightarrow>
          (case RegExp regex of
             Inl e \<Rightarrow> Inl e
           | Inr test \<Rightarrow> Inr (test v))
      | _ \<Rightarrow> Inr False)"

definition searchFunction :: "RegExpConstructor \<Rightarrow> FunctionExtension" where
  "searchFunction RegExp =
     LogicalFunctionExtension (ascii ''search'') [Value, Value] (searchEvaluate RegExp)"

section \<open>The entry point \<open>evaluateQuery\<close>\<close>

text \<open>
  \<open>context\<close> is the object that \<open>coerceQueryContext(options)\<close> returns: \<open>options\<close>
  itself when the caller passes a query context, which is then shared with the caller.
  A query given as a string is parsed first, outside the \<open>try\<close> block. The parser's
  bound on the depth of calls is never reached (theorem \<open>parseQuery_total\<close> below), so
  the branch for it is dead.
\<close>

definition evaluateQuery ::
  "tool_json \<Rightarrow> Query + jsstring \<Rightarrow> Node \<Rightarrow> QueryContext \<Rightarrow> NodeList eval" where
  "evaluateQuery L query root context =
     (case (case query of
              Inl q \<Rightarrow> Inr q
            | Inr s \<Rightarrow>
                (case parseQuery s context of
                   Parsed q buf \<Rightarrow> Inr q
                 | Thrown e \<Rightarrow> Inl e
                 | OutOfFuel \<Rightarrow> Inl (OtherError ''call depth exhausted''))) of
        Inl e \<Rightarrow> (Inl e, context)
      | Inr q \<Rightarrow>
          (case evaluateSegments L (segments q) [root] (context\<lparr>queryArgument := root\<rparr>) of
             (r, context1) \<Rightarrow> (r, context1\<lparr>queryArgument := queryArgument context\<rparr>)))"

section \<open>Concrete instances\<close>

text \<open>A JSON library whose equality is structural and whose order relates nothing, an
  empty context, and the query \<open>@\<close> followed by segments; the examples below are run
  on them.\<close>

definition structuralJson :: tool_json where
  "structuralJson =
     \<lparr>equalJson = (\<lambda>a b. a = b), compareJson = (\<lambda>a b. None), unicodeLength = length\<rparr>"

definition emptyContext :: QueryContext where
  "emptyContext =
     \<lparr>functionExtensions = (\<lambda>nm. None), queryArgument = JUndefined, queryScope = None\<rparr>"

definition currentNode :: "Segment list \<Rightarrow> Expression" where
  "currentNode segs = QueryExpression (ascii ''@'') segs"

text \<open>A regular expression constructor that rejects the pattern \<open>^(?:()$\<close>, as every
  JavaScript engine does (the group is not closed), and whose other expressions match
  nothing; and the context that registers \<open>match\<close> and \<open>search\<close> over it.\<close>

definition rejectingRegExp :: RegExpConstructor where
  "rejectingRegExp pattern =
     (if pattern = ascii ''^(?:()$'' \<or> pattern = ascii ''(''
      then Inl (SyntaxError ''Invalid regular expression: Unterminated group'')
      else Inr (\<lambda>v. False))"

definition matchContext :: QueryContext where
  "matchContext =
     \<lparr>functionExtensions =
        map_of [(ascii ''match'', matchFunction rejectingRegExp),
                (ascii ''search'', searchFunction rejectingRegExp)],
      queryArgument = JUndefined, queryScope = None\<rparr>"

section \<open>Predicates used in the proofs\<close>

text \<open>How a parsing function leaves the buffer: further along the same input
  (\<open>extends\<close>), or strictly further, having read a character (\<open>consumes\<close>);
  \<open>scanned\<close> is the number of characters a scanning loop reads.\<close>

definition extends :: "InputBuffer \<Rightarrow> InputBuffer \<Rightarrow> bool" where
  "extends b b' \<longleftrightarrow> limit b' = limit b \<and> offset b \<le> offset b'"

definition consumes :: "InputBuffer \<Rightarrow> InputBuffer \<Rightarrow> bool" where
  "consumes b b' \<longleftrightarrow> limit b' = limit b \<and> offset b < offset b' \<and> offset b < limit b"

definition scanned :: "(int \<Rightarrow> bool) \<Rightarrow> InputBuffer \<Rightarrow> nat" where
  "scanned p b = offset (scanWhile p b) - offset b"










section \<open>Properties of the evaluator\<close>

text \<open>The induction rule of the mutually recursive evaluator, under a short name.\<close>

lemmas evaluate_induct = evaluateSegments_evaluateSegment_evaluateChildSegment_childSelectorsLoop_childNodesLoop_evaluateDescendantSegment_descendantNodesLoop_descendantsLoop_nodeSelectorsLoop_evaluateSelector_evaluateFilterSelector_filterChildrenLoop_evaluateExpression_evaluateOrExpression_evaluateAndExpression_evaluateComparisonExpression_evaluateNotExpression_evaluateQueryTestExpression_evaluateFunctionTestExpression_evaluateComparableExpression_evaluateQueryExpression_evaluateFunctionExpression_evaluateFunctionArguments_functionArgumentsLoop_evaluateFunctionArgument_evaluateValueFunctionArgument_evaluateLogicalFunctionArgument_evaluateNodesFunctionArgument.induct

text \<open>No evaluator function changes the context across a call: the only assignment,
  to \<open>queryArgument\<close> in \<open>evaluateQueryExpression\<close>, is undone on every exit.\<close>

lemma evaluate_frame:
  shows "snd (evaluateSegments L segs1 nodes1 ctx1) = ctx1"
    and "snd (evaluateSegment L seg2 nodes2 ctx2) = ctx2"
    and "snd (evaluateChildSegment L sels3 nodes3 ctx3) = ctx3"
    and "snd (childSelectorsLoop L sels4 nodes4 out4 ctx4) = ctx4"
    and "snd (childNodesLoop L sel5 nodes5 out5 ctx5) = ctx5"
    and "snd (evaluateDescendantSegment L sels6 nodes6 ctx6) = ctx6"
    and "snd (descendantNodesLoop L sels7 nodes7 out7 ctx7) = ctx7"
    and "snd (descendantsLoop L sels8 nodes8 out8 ctx8) = ctx8"
    and "snd (nodeSelectorsLoop L sels9 node9 out9 ctx9) = ctx9"
    and "snd (evaluateSelector L sel10 node10 ctx10) = ctx10"
    and "snd (evaluateFilterSelector L e11 node11 ctx11) = ctx11"
    and "snd (filterChildrenLoop L e12 nodes12 out12 ctx12) = ctx12"
    and "snd (evaluateExpression L e13 node13 ctx13) = ctx13"
    and "snd (evaluateOrExpression L es14 node14 ctx14) = ctx14"
    and "snd (evaluateAndExpression L es15 node15 ctx15) = ctx15"
    and "snd (evaluateComparisonExpression L l16 operator16 r16 node16 ctx16) = ctx16"
    and "snd (evaluateNotExpression L e17 node17 ctx17) = ctx17"
    and "snd (evaluateQueryTestExpression L i18 segs18 node18 ctx18) = ctx18"
    and "snd (evaluateFunctionTestExpression L f19 es19 node19 ctx19) = ctx19"
    and "snd (evaluateComparableExpression L e20 node20 ctx20) = ctx20"
    and "snd (evaluateQueryExpression L i21 segs21 node21 ctx21) = ctx21"
    and "snd (evaluateFunctionExpression L f22 es22 node22 ctx22) = ctx22"
    and "snd (evaluateFunctionArguments L f23 es23 node23 ctx23) = ctx23"
    and "snd (functionArgumentsLoop L ts24 es24 node24 vals24 ctx24) = ctx24"
    and "snd (evaluateFunctionArgument L t25 e25 node25 ctx25) = ctx25"
    and "snd (evaluateValueFunctionArgument L e26 node26 ctx26) = ctx26"
    and "snd (evaluateLogicalFunctionArgument L e27 node27 ctx27) = ctx27"
    and "snd (evaluateNodesFunctionArgument L e28 node28 ctx28) = ctx28"
  by (induction L segs1 nodes1 ctx1
    and L seg2 nodes2 ctx2
    and L sels3 nodes3 ctx3
    and L sels4 nodes4 out4 ctx4
    and L sel5 nodes5 out5 ctx5
    and L sels6 nodes6 ctx6
    and L sels7 nodes7 out7 ctx7
    and L sels8 nodes8 out8 ctx8
    and L sels9 node9 out9 ctx9
    and L sel10 node10 ctx10
    and L e11 node11 ctx11
    and L e12 nodes12 out12 ctx12
    and L e13 node13 ctx13
    and L es14 node14 ctx14
    and L es15 node15 ctx15
    and L l16 operator16 r16 node16 ctx16
    and L e17 node17 ctx17
    and L i18 segs18 node18 ctx18
    and L f19 es19 node19 ctx19
    and L e20 node20 ctx20
    and L i21 segs21 node21 ctx21
    and L f22 es22 node22 ctx22
    and L f23 es23 node23 ctx23
    and L ts24 es24 node24 vals24 ctx24
    and L t25 e25 node25 ctx25
    and L e26 node26 ctx26
    and L e27 node27 ctx27
    and L e28 node28 ctx28
    rule: evaluate_induct)
     (auto split: prod.splits sum.splits FunctionExtension.splits)

lemma evaluateSelector_frame:
  "evaluateSelector L s n ctx = (fst (evaluateSelector L s n ctx), ctx)"
  using evaluate_frame(10) [of L s n ctx] by (cases "evaluateSelector L s n ctx") simp

text \<open>The two loops of \<open>evaluateChildSegment\<close>, when no selector throws.\<close>

lemma childNodesLoop_concat:
  "\<forall>n \<in> set nodes. fst (evaluateSelector L s n ctx) = Inr (f n) \<Longrightarrow>
   childNodesLoop L s nodes out ctx = (Inr (out @ concat (map f nodes)), ctx)"
proof (induction nodes arbitrary: out)
  case Nil
  then show ?case by simp
next
  case (Cons n rest)
  have "evaluateSelector L s n ctx = (Inr (f n), ctx)"
    using Cons.prems evaluateSelector_frame [of L s n ctx] by simp
  then show ?case using Cons by simp
qed

lemma childSelectorsLoop_concat:
  "\<forall>s \<in> set sels. \<forall>n \<in> set nodes. fst (evaluateSelector L s n ctx) = Inr (f s n) \<Longrightarrow>
   childSelectorsLoop L sels nodes out ctx =
     (Inr (out @ concat (map (\<lambda>s. concat (map (f s) nodes)) sels)), ctx)"
proof (induction sels arbitrary: out)
  case Nil
  then show ?case by simp
next
  case (Cons s rest)
  have "childNodesLoop L s nodes out ctx = (Inr (out @ concat (map (f s) nodes)), ctx)"
    using Cons.prems by (intro childNodesLoop_concat) simp
  then show ?case using Cons by simp
qed

lemma parseHexChar_offset:
  "parseHexChar buf = Inr (c, buf') \<Longrightarrow> buf' = advance 1 buf \<and> offset buf < limit buf"
  by (auto simp: parseHexChar_def peek_def Let_def split: if_splits)

lemma parseHexCodePoint_offset:
  "parseHexCodePoint buf = Inr (c, buf') \<Longrightarrow> buf' = advance 4 buf \<and> offset buf < limit buf"
  by (auto simp: parseHexCodePoint_def advance_def split: sum.splits dest!: parseHexChar_offset)

lemma advance_simps [simp]:
  "offset (advance k b) = offset b + k" "limit (advance k b) = limit b"
  "input (advance k b) = input b"
  by (simp_all add: advance_def)

lemma scanWhile_stop:
  "\<not> (offset b < limit b \<and> p (charCodeAt (input b) (offset b))) \<Longrightarrow> scanWhile p b = b"
  by (subst scanWhile.simps) auto

lemma scanWhile_step:
  "offset b < limit b \<Longrightarrow> p (charCodeAt (input b) (offset b)) \<Longrightarrow>
   scanWhile p b = scanWhile p (advance 1 b)"
  by (subst scanWhile.simps) simp

lemma scanWhile_limit [simp]: "limit (scanWhile p b) = limit b"
proof (induction p b rule: scanWhile.induct)
  case (1 p buf)
  then show ?case
    by (cases "offset buf < limit buf \<and> p (charCodeAt (input buf) (offset buf))")
       (simp_all add: scanWhile_stop scanWhile_step)
qed

lemma scanWhile_offset: "offset b \<le> offset (scanWhile p b)"
proof (induction p b rule: scanWhile.induct)
  case (1 p buf)
  show ?case
  proof (cases "offset buf < limit buf \<and> p (charCodeAt (input buf) (offset buf))")
    case True
    with 1 have "offset (advance 1 buf) \<le> offset (scanWhile p (advance 1 buf))" by blast
    with True show ?thesis by (simp add: scanWhile_step)
  next
    case False
    then show ?thesis by (simp add: scanWhile_stop)
  qed
qed

lemma parseBlankSpace_limit [simp]: "limit (parseBlankSpace b) = limit b"
  by (simp add: parseBlankSpace_def)

lemma parseBlankSpace_offset: "offset b \<le> offset (parseBlankSpace b)"
  by (simp add: parseBlankSpace_def scanWhile_offset)

lemma parseIntDigits_progress:
  "parseIntDigits v b = (v', b') \<Longrightarrow> extends b b'"
proof (induction v b arbitrary: v' b' rule: parseIntDigits.induct)
  case (1 v buf)
  show ?case
  proof (cases "offset buf < limit buf \<and> isDigit (charCodeAt (input buf) (offset buf))")
    case True
    with 1(2) have "parseIntDigits (v * 10 + (charCodeAt (input buf) (offset buf) - 0x30)) (advance 1 buf) = (v', b')"
      by (subst (asm) parseIntDigits.simps) simp
    with 1(1) True have "extends (advance 1 buf) b'" by blast
    then show ?thesis by (simp add: extends_def)
  next
    case False
    with 1(2) show ?thesis by (subst (asm) parseIntDigits.simps) (simp add: extends_def)
  qed
qed

lemma peek_nonneg_lt: "0 \<le> peek b \<Longrightarrow> offset b < limit b"
  by (simp add: peek_def split: if_splits)

lemma parseInt_progress: "parseInt b = Inr (v, b') \<Longrightarrow> consumes b b'"
  by (auto simp: parseInt_def Let_def consumes_def extends_def peek_def
           split: if_splits prod.splits dest!: parseIntDigits_progress)

lemma parseShorthandName_progress: "parseShorthandName b = Inr (v, b') \<Longrightarrow> consumes b b'"
  using scanWhile_offset [of "advance 1 b" isNameChar]
  by (auto simp: parseShorthandName_def Let_def consumes_def split: if_splits)

lemma parseFunctionName_progress: "parseFunctionName b = Inr (v, b') \<Longrightarrow> consumes b b'"
  using scanWhile_offset [of "advance 1 b" isIdentifierChar]
  by (auto simp: parseFunctionName_def Let_def consumes_def split: if_splits)

lemma offset_scanWhile: "offset (scanWhile p b) = offset b + scanned p b"
  using scanWhile_offset [of b p] by (simp add: scanned_def)

lemma parseFraction_progress: "parseFraction b = Inr b' \<Longrightarrow> extends b b'"
  by (auto simp: parseFraction_def Let_def extends_def offset_scanWhile split: if_splits)

lemma parseExponent_progress: "parseExponent b = Inr b' \<Longrightarrow> extends b b'"
  by (auto simp: parseExponent_def Let_def extends_def offset_scanWhile split: if_splits)

lemma parseNumber_progress: "parseNumber b = Inr (v, b') \<Longrightarrow> consumes b b'"
  by (auto simp: parseNumber_def Let_def consumes_def extends_def peek_def offset_scanWhile
           split: if_splits sum.splits
           dest!: parseFraction_progress parseExponent_progress)

lemma parseStringLoop_progress: "parseStringLoop q r b = Inr (v, b') \<Longrightarrow> extends b b'"
proof (induction "limit b - offset b" arbitrary: q r b v b' rule: less_induct)
  case less
  show ?case
    using less.prems
    apply (subst (asm) parseStringLoop.simps)
    apply (auto simp: Let_def extends_def split: if_splits sum.splits prod.splits
                dest!: parseHexCodePoint_offset less.hyps [rotated])
    done
qed

lemma parseStringLiteral_progress: "parseStringLiteral b = Inr (v, b') \<Longrightarrow> consumes b b'"
  by (auto simp: parseStringLiteral_def Let_def consumes_def extends_def peek_def
           split: if_splits dest!: parseStringLoop_progress)

lemma parseComparisonOperator_progress:
  "parseComparisonOperator b = Inr (v, b') \<Longrightarrow>
     (v = None \<longrightarrow> b' = b) \<and> (v \<noteq> None \<longrightarrow> consumes b b')"
  by (auto simp: parseComparisonOperator_def Let_def consumes_def peek_def split: if_splits)

lemma parseNameSelector_progress: "parseNameSelector b = Inr (v, b') \<Longrightarrow> consumes b b'"
  by (cases "parseStringLiteral b")
     (auto simp: parseNameSelector_def dest!: parseStringLiteral_progress)

lemma parseWildcardSelector_progress:
  "parseWildcardSelector b = Inr (v, b') \<Longrightarrow> consumes b b'"
  by (auto simp: parseWildcardSelector_def consumes_def peek_def split: if_splits)

lemma parseOptionalInt_progress:
  "parseOptionalInt b = Inr (v, b') \<Longrightarrow>
     (v = None \<longrightarrow> b' = b) \<and> (v \<noteq> None \<longrightarrow> consumes b b')"
  by (auto simp: parseOptionalInt_def split: if_splits sum.splits dest!: parseInt_progress)

lemma parseArraySelector_progress: "parseArraySelector b = Inr (v, b') \<Longrightarrow> consumes b b'"
  by (auto simp: parseArraySelector_def Let_def consumes_def peek_def offset_scanWhile
             parseBlankSpace_def
           split: if_splits sum.splits prod.splits option.splits
           dest!: parseOptionalInt_progress)

lemmas leaf_progress =
  parseShorthandName_progress parseFunctionName_progress parseNumber_progress
  parseStringLiteral_progress parseComparisonOperator_progress parseNameSelector_progress
  parseWildcardSelector_progress parseArraySelector_progress

lemma bufferOf_simps [simp]: "bufferOf (Inr b) = b" "bufferOf (Inl s) = stringBuffer s"
  by (simp_all add: bufferOf_def)

lemma unconsumed_Inr [simp]: "\<not> unconsumed (Inr b) b'"
  by (simp add: unconsumed_def)







section \<open>Running the parser\<close>

text \<open>The equations of the parsing functions at a numeral bound, and the definitions
  that running the parser on a given string unfolds.\<close>

lemmas fuel_numeral =
  parseSegments.simps(2) [where n = "pred_numeral k", folded numeral_eq_Suc]
  parseSegment_fuel.simps(2) [where n = "pred_numeral k", folded numeral_eq_Suc]
  parseBracketedSelection.simps(2) [where n = "pred_numeral k", folded numeral_eq_Suc]
  parseSelectorsLoop.simps(2) [where n = "pred_numeral k", folded numeral_eq_Suc]
  parseSelector_fuel.simps(2) [where n = "pred_numeral k", folded numeral_eq_Suc]
  parseFilterSelector.simps(2) [where n = "pred_numeral k", folded numeral_eq_Suc]
  parseExpression_fuel.simps(2) [where n = "pred_numeral k", folded numeral_eq_Suc]
  parseOrExpression.simps(2) [where n = "pred_numeral k", folded numeral_eq_Suc]
  parseOrLoop.simps(2) [where n = "pred_numeral k", folded numeral_eq_Suc]
  parseAndExpression.simps(2) [where n = "pred_numeral k", folded numeral_eq_Suc]
  parseAndLoop.simps(2) [where n = "pred_numeral k", folded numeral_eq_Suc]
  parseBasicExpression.simps(2) [where n = "pred_numeral k", folded numeral_eq_Suc]
  parseParenExpression.simps(2) [where n = "pred_numeral k", folded numeral_eq_Suc]
  parseComparable.simps(2) [where n = "pred_numeral k", folded numeral_eq_Suc]
  parseFunctionArguments.simps(2) [where n = "pred_numeral k", folded numeral_eq_Suc]
  parseArgumentsLoop.simps(2) [where n = "pred_numeral k", folded numeral_eq_Suc]
  for k

lemmas parse_eval = fuel_numeral parseQuery_def parseSegment_def parseQuery_fuel_def fuelFor_def
  bufferOf_def unconsumed_def finishSegment_def dotSegment_def pushOperand_def stringBuffer_def
  peek_def charCodeAt_def advance_def slice_def ascii_def Let_def createQuery_def
  isUppercase_def isLowercase_def isAlpha_def isDigit_def isNameFirstChar_def isNameChar_def
  isIdentifierChar_def isSpaceChar_def isUnescapedStringChar_def
  scanWhile.simps parseBlankSpace_def parseFunctionName_def parseShorthandName_def
  parseIntDigits.simps parseInt_def parseFraction_def parseExponent_def parseNumber_def
  parseHexChar_def parseHexCodePoint_def parseStringLoop.simps parseStringLiteral_def
  parseComparisonOperator_def parseNameSelector_def parseWildcardSelector_def
  parseOptionalInt_def parseArraySelector_def isSingularQuery_def

section \<open>The parser throws only \<open>QueryError\<close>\<close>




















section \<open>The entry points of the parser\<close>









text \<open>The definitions that running the formatter on a given tree unfolds.\<close>

lemmas format_eval = formatQuery_def shorthandSelector_def isValidShorthandName_def
  formatStringLiteral_def formatStringChar_def padStart_def toString16.simps hexDigit_def
  charCodeAt_def isNameFirstChar_def isNameChar_def isAlpha_def isUppercase_def isLowercase_def
  isDigit_def isUnescapedStringChar_def ascii_def numeral_3_eq_3

section \<open>Comparisons and child segments\<close>

text \<open>
  Claim C1. When both operands of a comparison evaluate to a nodelist of at most one node:
  \<open>==\<close> holds iff both are empty or both are present and equal; \<open>!=\<close> holds iff exactly
  one is empty or both are present and unequal; \<open><=\<close> and \<open>>=\<close> hold when both are empty;
  and \<open><\<close>, \<open>>\<close>, \<open><=\<close>, \<open>>=\<close> are all false when exactly one is empty.
\<close>

theorem comparison_nothing:
  assumes "evaluateComparableExpression L lhsE node ctx = (Inr lhs, ctx')"
    and "evaluateComparableExpression L rhsE node ctx' = (Inr rhs, ctx'')"
    and "length lhs \<le> 1" and "length rhs \<le> 1"
  shows "evaluateComparisonExpression L lhsE Equal rhsE node ctx =
           (Inr ((lhs = [] \<and> rhs = []) \<or>
                 (lhs \<noteq> [] \<and> rhs \<noteq> [] \<and> equalJson L (lhs ! 0) (rhs ! 0))), ctx'')
       \<and> evaluateComparisonExpression L lhsE NotEqual rhsE node ctx =
           (Inr (((lhs = []) \<noteq> (rhs = [])) \<or>
                 (lhs \<noteq> [] \<and> rhs \<noteq> [] \<and> \<not> equalJson L (lhs ! 0) (rhs ! 0))), ctx'')
       \<and> (lhs = [] \<and> rhs = [] \<longrightarrow>
            evaluateComparisonExpression L lhsE LessThanOrEqual rhsE node ctx = (Inr True, ctx'')
          \<and> evaluateComparisonExpression L lhsE GreaterThanOrEqual rhsE node ctx =
              (Inr True, ctx''))
       \<and> ((lhs = []) \<noteq> (rhs = []) \<longrightarrow>
            (\<forall>operator \<in> {LessThan, GreaterThan, LessThanOrEqual, GreaterThanOrEqual}.
               evaluateComparisonExpression L lhsE operator rhsE node ctx = (Inr False, ctx'')))"
  using assms by (cases lhs; cases rhs) (auto simp: compareNodeLists_def)

text \<open>The theorem at \<open>@.a\<close> against \<open>@.b\<close> on the object \<open>{"a": null}\<close>: one node
  against Nothing.\<close>

theorem comparison_nothing_witness:
  "evaluateComparisonExpression structuralJson
       (currentNode [ChildSegment [NameSelector (ascii ''a'')]]) Equal
       (currentNode [ChildSegment [NameSelector (ascii ''b'')]])
       (JObject [(ascii ''a'', JNull)]) emptyContext = (Inr False, emptyContext)
   \<and> evaluateComparisonExpression structuralJson
       (currentNode [ChildSegment [NameSelector (ascii ''a'')]]) NotEqual
       (currentNode [ChildSegment [NameSelector (ascii ''b'')]])
       (JObject [(ascii ''a'', JNull)]) emptyContext = (Inr True, emptyContext)
   \<and> evaluateComparisonExpression structuralJson
       (currentNode [ChildSegment [NameSelector (ascii ''a'')]]) LessThanOrEqual
       (currentNode [ChildSegment [NameSelector (ascii ''b'')]])
       (JObject [(ascii ''a'', JNull)]) emptyContext = (Inr False, emptyContext)
   \<and> evaluateComparisonExpression structuralJson
       (currentNode [ChildSegment [NameSelector (ascii ''a'')]]) GreaterThan
       (currentNode [ChildSegment [NameSelector (ascii ''b'')]])
       (JObject [(ascii ''a'', JNull)]) emptyContext = (Inr False, emptyContext)"
  using comparison_nothing [where L = structuralJson
      and lhsE = "currentNode [ChildSegment [NameSelector (ascii ''a'')]]"
      and rhsE = "currentNode [ChildSegment [NameSelector (ascii ''b'')]]"
      and node = "JObject [(ascii ''a'', JNull)]"
      and ctx = emptyContext and ctx' = emptyContext and ctx'' = emptyContext
      and lhs = "[JNull]" and rhs = "[]"]
  by (simp add: currentNode_def ascii_def evaluateNameSelector_def emptyContext_def)

text \<open>
  Claim C7, as the code has it. When an operand evaluates to two or more nodes, every
  operator other than \<open>!=\<close> is false, and \<open>!=\<close> is true exactly when the other operand
  is empty: the test for an empty operand comes first in \<open>evaluateComparisonExpression\<close>,
  and there \<open>!=\<close> compares the two lengths.
\<close>

theorem comparison_many:
  assumes "evaluateComparableExpression L lhsE node ctx = (Inr lhs, ctx')"
    and "evaluateComparableExpression L rhsE node ctx' = (Inr rhs, ctx'')"
    and "length lhs > 1 \<or> length rhs > 1"
  shows "evaluateComparisonExpression L lhsE operator rhsE node ctx =
           (Inr (operator = NotEqual \<and> (lhs = [] \<or> rhs = [])), ctx'')"
  using assms by (cases operator) (auto simp: compareNodeLists_def)

text \<open>The theorem at \<open>@.* == @.*\<close> on \<open>[null, null]\<close>.\<close>

theorem comparison_many_witness:
  "evaluateComparisonExpression structuralJson
       (currentNode [ChildSegment [WildcardSelector]]) Equal
       (currentNode [ChildSegment [WildcardSelector]])
       (JArray [JNull, JNull]) emptyContext = (Inr False, emptyContext)"
  using comparison_many [where L = structuralJson
      and lhsE = "currentNode [ChildSegment [WildcardSelector]]"
      and rhsE = "currentNode [ChildSegment [WildcardSelector]]"
      and node = "JArray [JNull, JNull]" and operator = Equal
      and ctx = emptyContext and ctx' = emptyContext and ctx'' = emptyContext
      and lhs = "[JNull, JNull]" and rhs = "[JNull, JNull]"]
  by (simp add: currentNode_def ascii_def evaluateWildcardSelector_def emptyContext_def)

text \<open>Claim C7 as stated (every operator false, \<open>!=\<close> included) fails at
  \<open>@.* != @.zz\<close> on \<open>[null, null]\<close>: two nodes against Nothing is true.\<close>

theorem comparison_many_not_equal:
  "evaluateComparisonExpression structuralJson
       (currentNode [ChildSegment [WildcardSelector]]) NotEqual
       (currentNode [ChildSegment [NameSelector (ascii ''zz'')]])
       (JArray [JNull, JNull]) emptyContext = (Inr True, emptyContext)"
  by (simp add: currentNode_def ascii_def evaluateWildcardSelector_def
        evaluateNameSelector_def emptyContext_def compareNodeLists_def)

text \<open>
  Claim C4. A child segment lists, for each selector in source order, the results of that
  selector on every input node in input order: all matches of the first selector come
  before any match of the second. \<open>f s n\<close> is the nodelist that selector \<open>s\<close> returns
  on node \<open>n\<close>.
\<close>

theorem child_segment_selector_major:
  assumes "\<forall>s \<in> set sels. \<forall>n \<in> set nodes. fst (evaluateSelector L s n ctx) = Inr (f s n)"
  shows "evaluateChildSegment L sels nodes ctx =
           (Inr (concat (map (\<lambda>s. concat (map (f s) nodes)) sels)), ctx)"
  using childSelectorsLoop_concat [OF assms, of "[]"] by simp

text \<open>The theorem at the selectors \<open>[*, 0]\<close> on the two arrays \<open>[true, null]\<close> and
  \<open>[false]\<close>.\<close>

theorem child_segment_selector_major_witness:
  "evaluateChildSegment structuralJson [WildcardSelector, IndexSelector 0]
       [JArray [JBool True, JNull], JArray [JBool False]] emptyContext =
     (Inr [JBool True, JNull, JBool False, JBool True, JBool False], emptyContext)"
  using child_segment_selector_major [where L = structuralJson
      and sels = "[WildcardSelector, IndexSelector 0]"
      and nodes = "[JArray [JBool True, JNull], JArray [JBool False]]"
      and ctx = emptyContext
      and f = "\<lambda>s n. projr (fst (evaluateSelector structuralJson s n emptyContext))"]
  by (simp add: evaluateWildcardSelector_def)

section \<open>Properties of the parser, the formatter and the entry point\<close>










text \<open>
  Claim C2 fails at \<open>$[?!(!@.a)]\<close>. The parser accepts it as a negation of a negation;
  \<open>formatNotExpression\<close> parenthesizes its operand only below precedence 4, which is
  the precedence of a negation, and prints \<open>$[?!!@.a]\<close>; the parser rejects that string,
  since after \<open>!\<close> it expects a parenthesis or a comparable expression.
\<close>

theorem format_reparse_fails:
  "\<exists>q b. parseQuery (ascii ''$[?!(!@.a)]'') ctx = Parsed q b
     \<and> formatQuery stringify q = ascii ''$[?!!@.a]''
     \<and> parseQuery (formatQuery stringify q) ctx =
         Thrown (QueryError ''Expected comparable expression'' 4)"
proof -
  have parsed: "parseQuery (ascii ''$[?!(!@.a)]'') ctx =
      Parsed \<lparr>segments = [ChildSegment [FilterSelector (NotExpression (NotExpression
           (QueryExpression (ascii ''@'') [ChildSegment [NameSelector (ascii ''a'')]])))]]\<rparr>
        \<lparr>input = ascii ''$[?!(!@.a)]'', offset = 11, limit = 11\<rparr>"
    by (simp add: parse_eval)
  have formatted: "formatQuery stringify
      \<lparr>segments = [ChildSegment [FilterSelector (NotExpression (NotExpression
           (QueryExpression (ascii ''@'') [ChildSegment [NameSelector (ascii ''a'')]])))]]\<rparr>
      = ascii ''$[?!!@.a]''"
    by (simp add: format_eval)
  have reparsed: "parseQuery (ascii ''$[?!!@.a]'') ctx =
      Thrown (QueryError ''Expected comparable expression'' 4)"
    by (simp add: parse_eval)
  show ?thesis
    by (simp add: parsed formatted reparsed)
qed

text \<open>
  A second input where the output of the formatter does not parse:
  \<open>parseStringLiteral\<close> moves the offset four characters on after
  \<open>parseHexCodePoint\<close> has already moved it past the four hexadecimal digits, so the
  escape written by the formatter swallows the closing quote.
\<close>

lemma escape_reparse_fails:
  "\<exists>q b. parseQuery (ascii ''$['' @ [0x27, 0x5c] @ ascii ''u0001abcd'' @ [0x27] @ ascii '']'') ctx
           = Parsed q b
     \<and> segments q = [ChildSegment [NameSelector [0x01]]]
     \<and> formatQuery stringify q = ascii ''$['' @ [0x27, 0x5c] @ ascii ''u0001'' @ [0x27] @ ascii '']''
     \<and> parseQuery (formatQuery stringify q) ctx = Thrown (QueryError ''Expected comma'' 13)"
proof -
  have parsed:
    "parseQuery (ascii ''$['' @ [0x27, 0x5c] @ ascii ''u0001abcd'' @ [0x27] @ ascii '']'') ctx =
      Parsed \<lparr>segments = [ChildSegment [NameSelector [0x01]]]\<rparr>
        \<lparr>input = ascii ''$['' @ [0x27, 0x5c] @ ascii ''u0001abcd'' @ [0x27] @ ascii '']'',
          offset = 15, limit = 15\<rparr>"
    by (simp add: parse_eval)
  have formatted: "formatQuery stringify \<lparr>segments = [ChildSegment [NameSelector [0x01]]]\<rparr>
      = ascii ''$['' @ [0x27, 0x5c] @ ascii ''u0001'' @ [0x27] @ ascii '']''"
    by (simp add: format_eval)
  have reparsed:
    "parseQuery (ascii ''$['' @ [0x27, 0x5c] @ ascii ''u0001'' @ [0x27] @ ascii '']'') ctx =
      Thrown (QueryError ''Expected comma'' 13)"
    by (simp add: parse_eval)
  from parsed formatted reparsed show ?thesis
    by simp
qed

text \<open>
  Claim C5 fails on an invalid regular expression. \<open>match\<close> and \<open>search\<close> return
  false when an argument is not a string, but hand a string to the \<open>RegExp\<close>
  constructor outside any \<open>try\<close> block: what the constructor throws, the function
  throws.
\<close>

theorem match_invalid_regex_raises:
  "(RegExp (ascii ''^(?:'' @ regex @ ascii '')$'') = Inl e \<longrightarrow>
      matchEvaluate RegExp [ValueArg (JString v), ValueArg (JString regex)] queryArg = Inl e)
   \<and> (RegExp regex = Inl e \<longrightarrow>
      searchEvaluate RegExp [ValueArg (JString v), ValueArg (JString regex)] queryArg = Inl e)
   \<and> (\<not> isString (argumentAt args 0) \<or> \<not> isString (argumentAt args 1) \<longrightarrow>
      matchEvaluate RegExp args queryArg = Inr False
      \<and> searchEvaluate RegExp args queryArg = Inr False)"
  by (auto simp: matchEvaluate_def searchEvaluate_def argumentAt_def split: Node.splits)

text \<open>
  The theorem at the value \<open>a\<close> and the regular expression \<open>(\<close>, for the two
  functions and for the query \<open>$[?match(@, '(')]\<close> on the array \<open>["a"]\<close>.
\<close>

theorem match_invalid_regex_raises_witness:
  "matchEvaluate rejectingRegExp [ValueArg (JString (ascii ''a'')), ValueArg (JString (ascii ''(''))]
       JUndefined = Inl (SyntaxError ''Invalid regular expression: Unterminated group'')
   \<and> searchEvaluate rejectingRegExp
       [ValueArg (JString (ascii ''a'')), ValueArg (JString (ascii ''(''))]
       JUndefined = Inl (SyntaxError ''Invalid regular expression: Unterminated group'')
   \<and> fst (evaluateQuery structuralJson
         (Inr (ascii ''$[?match(@, '' @ [0x27, 0x28, 0x27] @ ascii '')]''))
         (JArray [JString (ascii ''a'')]) matchContext)
       = Inl (SyntaxError ''Invalid regular expression: Unterminated group'')"
  using match_invalid_regex_raises [where RegExp = rejectingRegExp and regex = "ascii ''(''"
      and v = "ascii ''a''" and queryArg = JUndefined
      and e = "SyntaxError ''Invalid regular expression: Unterminated group''"
      and args = "[]"]
  by (simp add: parse_eval evaluateQuery_def matchContext_def matchFunction_def
        searchFunction_def matchEvaluate_def searchEvaluate_def argumentAt_def
        rejectingRegExp_def evaluateWildcardSelector_def singularValue_def)

text \<open>
  Claim C9. \<open>evaluateQueryExpression\<close> evaluates the segments of an \<open>@\<close>-query from
  the current node and those of a \<open>$\<close>-query from the context's query argument;
  \<open>evaluateQuery\<close> evaluates from the root it is given; and both leave the context as
  they found it, \<open>queryArgument\<close> included, whether the evaluation returns a nodelist or
  throws.
\<close>

theorem query_argument_restored:
  "evaluateQueryExpression L (ascii ''@'') segs node ctx =
     (fst (evaluateSegments L segs [node] (ctx\<lparr>queryArgument := node\<rparr>)), ctx)
   \<and> evaluateQueryExpression L (ascii ''$'') segs node ctx =
     (fst (evaluateSegments L segs [queryArgument ctx] ctx), ctx)
   \<and> evaluateQuery L (Inl q) root ctx =
     (fst (evaluateSegments L (segments q) [root] (ctx\<lparr>queryArgument := root\<rparr>)), ctx)
   \<and> snd (evaluateQueryExpression L identifier segs node ctx) = ctx
   \<and> snd (evaluateQuery L query root ctx) = ctx"
proof -
  have run: "(case evaluateSegments L ss [r] (ctx\<lparr>queryArgument := r\<rparr>) of
               (res, ctx1) \<Rightarrow> (res, ctx1\<lparr>queryArgument := queryArgument ctx\<rparr>))
             = (fst (evaluateSegments L ss [r] (ctx\<lparr>queryArgument := r\<rparr>)), ctx)" for ss r
    using evaluate_frame(1) [of L ss "[r]" "ctx\<lparr>queryArgument := r\<rparr>"]
    by (cases "evaluateSegments L ss [r] (ctx\<lparr>queryArgument := r\<rparr>)") simp
  have at: "evaluateQueryExpression L (ascii ''@'') segs node ctx =
     (fst (evaluateSegments L segs [node] (ctx\<lparr>queryArgument := node\<rparr>)), ctx)"
    by (simp add: run)
  have dollar: "evaluateQueryExpression L (ascii ''$'') segs node ctx =
     (fst (evaluateSegments L segs [queryArgument ctx] ctx), ctx)"
    using run [of segs "queryArgument ctx"] by (simp add: ascii_def)
  have top: "evaluateQuery L (Inl q) root ctx =
     (fst (evaluateSegments L (segments q) [root] (ctx\<lparr>queryArgument := root\<rparr>)), ctx)"
    by (simp add: evaluateQuery_def run)
  have "snd (evaluateQuery L query root ctx) = ctx"
    by (simp add: evaluateQuery_def run split: sum.splits parsed.splits)
  with at dollar top evaluate_frame(21) show ?thesis by simp
qed

text \<open>
  The theorem at \<open>$[?$[0] == @]\<close> on the array \<open>["a", null, "a"]\<close>: \<open>$\<close> inside
  the filter is the array, \<open>@\<close> its element, and the context comes back unchanged.
\<close>

theorem query_argument_restored_witness:
  "evaluateQuery structuralJson (Inr (ascii ''$[?$[0] == @]''))
       (JArray [JString (ascii ''a''), JNull, JString (ascii ''a'')]) emptyContext =
     (Inr [JString (ascii ''a''), JString (ascii ''a'')], emptyContext)"
  using query_argument_restored [where L = structuralJson
      and query = "Inr (ascii ''$[?$[0] == @]'')"
      and root = "JArray [JString (ascii ''a''), JNull, JString (ascii ''a'')]"
      and ctx = emptyContext]
  by (simp add: parse_eval evaluateQuery_def emptyContext_def structuralJson_def
        evaluateWildcardSelector_def compareNodeLists_def)

end
